theory Spec2Isabelle
  imports Complex_Main "HOL-Library.Multiset"
begin

section \<open>Record model\<close>

text \<open>
  The cleaning methods of \<^verbatim>\<open>DemoParser\<close> (awpy/parser/demoparser.py) work on the parsed
  JSON document held in \<^verbatim>\<open>self.json\<close>. Every JSON object is a record with the keys the
  code reads or writes; a value that may be \<^verbatim>\<open>null\<close> (Python \<^verbatim>\<open>None\<close>) is an \<open>option\<close>.
  Integers are Python's unbounded ints, coordinates are JSON numbers (only compared with
  each other and with 0). The field \<open>p_rest\<close> stands for the remaining attributes of a
  player dictionary (inventory and statistics), which the code never reads but which take
  part in the dictionary equality that \<^verbatim>\<open>list.remove\<close> uses.
  Exceptions are values of \<open>error\<close>; a method that may raise returns \<open>error + 'a\<close>.
\<close>

datatype error = AttributeError | KeyError | TypeError | IndexError | ValueError

text \<open>An entry of \<^verbatim>\<open>game_round["tSide"]["players"]\<close>.\<close>

record roster_player =
  rp_steamID :: int
  playerName :: string

text \<open>
  \<^verbatim>\<open>game_round["tSide"]\<close>: \<open>rt_teamName\<close> is \<open>None\<close> for the empty dictionary that
  \<^verbatim>\<open>remove_excess_players\<close> creates, \<open>rt_players\<close> is \<open>None\<close> when the key \<^verbatim>\<open>"players"\<close> is
  missing or null.
\<close>

record roster_team =
  rt_teamName :: "string option"
  rt_players :: "roster_player list option"

text \<open>A player of a frame; \<open>p_x\<close>, \<open>p_y\<close>, \<open>p_z\<close> are the keys \<^verbatim>\<open>"x"\<close>, \<^verbatim>\<open>"y"\<close>, \<^verbatim>\<open>"z"\<close>.\<close>

record player =
  steamID :: int
  p_name :: string
  side :: string
  p_x :: real
  p_y :: real
  p_z :: real
  isAlive :: bool
  p_rest :: nat

record team_frame =
  teamName :: string
  alivePlayers :: int
  players :: "player list option"

text \<open>A frame; \<open>f_t\<close> and \<open>f_ct\<close> are the keys \<^verbatim>\<open>"t"\<close> and \<^verbatim>\<open>"ct"\<close>.\<close>

record frame =
  tick :: int
  globalFrameID :: int
  f_t :: team_frame
  f_ct :: team_frame

record kill =
  attackerSteamID :: int
  attackerSide :: string
  victimSteamID :: int
  victimSide :: string
  weapon :: string

record damage =
  dmg_attackerSteamID :: int
  dmg_attackerSide :: string
  dmg_victimSteamID :: int
  dmg_victimSide :: string

record grenade =
  throwerSteamID :: int
  throwerSide :: string

record weapon_fire =
  playerSteamID :: int
  playerSide :: string

record flash =
  fl_attackerSteamID :: int
  fl_attackerSide :: string
  fl_playerSteamID :: int
  fl_playerSide :: string

text \<open>
  A round. \<open>tSide\<close> and \<open>ctSide\<close> are \<open>None\<close> when the key is missing from the round
  (\<^verbatim>\<open>side not in game_round\<close>); the event lists and \<open>frames\<close> are \<open>None\<close> when null.
\<close>

record game_round =
  roundNum :: int
  isWarmup :: bool
  startTick :: int
  freezeTimeEndTick :: int
  endTick :: int
  endOfficialTick :: int
  tScore :: int
  ctScore :: int
  endTScore :: int
  endCTScore :: int
  winningSide :: string
  roundEndReason :: string
  tSide :: "roster_team option"
  ctSide :: "roster_team option"
  kills :: "kill list option"
  damages :: "damage list option"
  grenades :: "grenade list option"
  weaponFires :: "weapon_fire list option"
  flashes :: "flash list option"
  frames :: "frame list option"

text \<open>
  The document. \<open>matchPhases\<close> is a JSON object, kept as its list of key/value pairs;
  \<open>gameRounds\<close> is \<open>None\<close> when null.
\<close>

record game =
  matchID :: string
  mapName :: string
  matchPhases :: "(string \<times> int list) list"
  gameRounds :: "game_round list option"

text \<open>
  The parser object: \<^verbatim>\<open>self.json\<close> (\<open>None\<close> before a document is loaded, which is the
  only falsy value it takes) and \<^verbatim>\<open>self.parse_frames\<close>.
\<close>

record parser =
  json :: "game option"
  parse_frames :: bool

section \<open>Python list access\<close>

text \<open>\<^verbatim>\<open>xs[i]\<close>: a negative index counts from the end, an index out of range raises.\<close>

definition py_index :: "'a list \<Rightarrow> int \<Rightarrow> error + 'a" where
  "py_index xs i =
     (if 0 \<le> i \<and> i < int (length xs) then Inr (xs ! nat i)
      else if i < 0 \<and> - int (length xs) \<le> i then Inr (xs ! nat (int (length xs) + i))
      else Inl IndexError)"

section \<open>Score consistency: remove_bad_scoring\<close>

definition has_winner_and_not_winner :: "game_round \<Rightarrow> bool" where
  "has_winner_and_not_winner game_round =
     (let tie_score = 15;
          ot_tie_score = 3;
          regular_valid_t_win =
            (endTScore game_round = tie_score + 1 \<and> endCTScore game_round < tie_score);
          regular_valid_ct_win =
            (endCTScore game_round = tie_score + 1 \<and> endTScore game_round < tie_score);
          ot_valid_ct_win =
            ((endCTScore game_round - tie_score - 1) mod ot_tie_score = 0
             \<and> endTScore game_round < endCTScore game_round - 1
             \<and> endCTScore game_round > tie_score);
          ot_valid_t_win =
            ((endTScore game_round - tie_score - 1) mod ot_tie_score = 0
             \<and> endCTScore game_round < endTScore game_round - 1
             \<and> endTScore game_round > tie_score)
      in regular_valid_ct_win \<or> regular_valid_t_win \<or> ot_valid_ct_win \<or> ot_valid_t_win)"

definition round_total :: "game_round \<Rightarrow> int" where
  "round_total game_round =
     tScore game_round + endTScore game_round + ctScore game_round + endCTScore game_round"

text \<open>
  The loop over \<^verbatim>\<open>enumerate(self.json["gameRounds"])\<close>: \<open>all_rounds\<close> is the list being
  read, the second argument the pairs still to visit, the third \<^verbatim>\<open>cleaned_rounds\<close>.
\<close>

fun bad_scoring_loop ::
  "game_round list \<Rightarrow> (nat \<times> game_round) list \<Rightarrow> game_round list \<Rightarrow> error + game_round list"
where
  "bad_scoring_loop all_rounds [] cleaned_rounds = Inr cleaned_rounds"
| "bad_scoring_loop all_rounds ((i, game_round) # rest) cleaned_rounds =
     (let current_round_total = round_total game_round in
      if int i < int (length all_rounds) - 1 then
        (case py_index all_rounds (int i + 1) of
           Inl e \<Rightarrow> Inl e
         | Inr lookahead_round \<Rightarrow>
             if round_total lookahead_round > current_round_total
                \<or> has_winner_and_not_winner game_round
             then bad_scoring_loop all_rounds rest (cleaned_rounds @ [game_round])
             else bad_scoring_loop all_rounds rest cleaned_rounds)
      else
        (case py_index all_rounds (int i - 1) of
           Inl e \<Rightarrow> Inl e
         | Inr lookback_round \<Rightarrow>
             if current_round_total > round_total lookback_round
             then bad_scoring_loop all_rounds rest (cleaned_rounds @ [game_round])
             else bad_scoring_loop all_rounds rest cleaned_rounds))"

definition set_rounds :: "parser \<Rightarrow> game \<Rightarrow> game_round list \<Rightarrow> parser" where
  "set_rounds p j rs = p\<lparr>json := Some (j\<lparr>gameRounds := Some rs\<rparr>)\<rparr>"

definition remove_bad_scoring :: "parser \<Rightarrow> error + parser" where
  "remove_bad_scoring p =
     (case json p of
        None \<Rightarrow> Inl AttributeError
      | Some j \<Rightarrow>
          (case gameRounds j of
             None \<Rightarrow> Inr p
           | Some rs \<Rightarrow>
               (case bad_scoring_loop rs (enumerate 0 rs) [] of
                  Inl e \<Rightarrow> Inl e
                | Inr cleaned_rounds \<Rightarrow> Inr (set_rounds p j cleaned_rounds))))"

section \<open>Scalar filters\<close>

text \<open>\<^verbatim>\<open>xs or []\<close>: a null list reads as the empty list.\<close>

definition or_empty :: "'a list option \<Rightarrow> 'a list" where
  "or_empty xs = (case xs of None \<Rightarrow> [] | Some ys \<Rightarrow> ys)"

definition remove_rounds_with_no_frames :: "parser \<Rightarrow> error + parser" where
  "remove_rounds_with_no_frames p =
     (case json p of
        None \<Rightarrow> Inl AttributeError
      | Some j \<Rightarrow>
          if \<not> parse_frames p then Inr p
          else Inr (set_rounds p j
                 (filter (\<lambda>game_round. length (or_empty (frames game_round)) > 0)
                    (or_empty (gameRounds j)))))"

definition remove_warmups :: "parser \<Rightarrow> error + parser" where
  "remove_warmups p =
     (case json p of
        None \<Rightarrow> Inl AttributeError
      | Some j \<Rightarrow>
          Inr (set_rounds p j
            (if ''warmupChanged'' \<in> set (map fst (matchPhases j))
             then filter (\<lambda>game_round. \<not> isWarmup game_round) (or_empty (gameRounds j))
             else [])))"

text \<open>The loop of \<^verbatim>\<open>remove_knife_rounds\<close>; the second argument is \<^verbatim>\<open>cleaned_rounds\<close>.\<close>

fun knife_loop :: "game_round list \<Rightarrow> game_round list \<Rightarrow> game_round list" where
  "knife_loop [] cleaned_rounds = cleaned_rounds"
| "knife_loop (game_round # rest) cleaned_rounds =
     (if isWarmup game_round then knife_loop rest cleaned_rounds
      else
        (case kills game_round of
           None \<Rightarrow> knife_loop rest cleaned_rounds
         | Some kill_actions \<Rightarrow>
             (let total_kills = length kill_actions;
                  total_knife_kills = length (filter (\<lambda>k. weapon k = ''Knife'') kill_actions)
              in if total_knife_kills \<noteq> total_kills \<or> total_knife_kills = 0
                 then knife_loop rest (cleaned_rounds @ [game_round])
                 else knife_loop rest cleaned_rounds)))"

definition remove_knife_rounds :: "parser \<Rightarrow> error + parser" where
  "remove_knife_rounds p =
     (case json p of
        None \<Rightarrow> Inl AttributeError
      | Some j \<Rightarrow>
          (case gameRounds j of
             None \<Rightarrow> Inr p
           | Some game_rounds \<Rightarrow> Inr (set_rounds p j (knife_loop game_rounds []))))"

definition remove_excess_kill_rounds :: "parser \<Rightarrow> error + parser" where
  "remove_excess_kill_rounds p =
     (case json p of
        None \<Rightarrow> Inl AttributeError
      | Some j \<Rightarrow>
          Inr (set_rounds p j
            (filter (\<lambda>game_round. \<not> isWarmup game_round
                       \<and> length (or_empty (kills game_round)) \<le> 10)
               (or_empty (gameRounds j)))))"

definition remove_time_rounds :: "parser \<Rightarrow> error + parser" where
  "remove_time_rounds p =
     (case json p of
        None \<Rightarrow> Inl AttributeError
      | Some j \<Rightarrow>
          Inr (set_rounds p j
            (filter (\<lambda>game_round. startTick game_round \<le> endTick game_round
                       \<and> startTick game_round \<le> endOfficialTick game_round
                       \<and> startTick game_round \<le> freezeTimeEndTick game_round)
               (or_empty (gameRounds j)))))"

text \<open>\<^verbatim>\<open>remove_end_round(bad_endings=None)\<close>: \<open>None\<close> selects the default list.\<close>

definition remove_end_round :: "string list option \<Rightarrow> parser \<Rightarrow> error + parser" where
  "remove_end_round bad_endings_arg p =
     (let bad_endings =
            (case bad_endings_arg of None \<Rightarrow> [''Draw'', ''Unknown'', ''''] | Some b \<Rightarrow> b)
      in case json p of
           None \<Rightarrow> Inl AttributeError
         | Some j \<Rightarrow>
             (case gameRounds j of
                None \<Rightarrow> Inr p
              | Some game_rounds \<Rightarrow>
                  Inr (set_rounds p j
                    (filter (\<lambda>game_round. roundEndReason game_round \<notin> set bad_endings)
                       game_rounds))))"

section \<open>Renumbering\<close>

definition renumber_rounds :: "parser \<Rightarrow> error + parser" where
  "renumber_rounds p =
     (case json p of
        None \<Rightarrow> Inl AttributeError
      | Some j \<Rightarrow>
          (case gameRounds j of
             None \<Rightarrow> Inr p
           | Some rs \<Rightarrow>
               Inr (set_rounds p j
                 (map (\<lambda>(i, r). r\<lparr>roundNum := int i + 1\<rparr>) (enumerate 0 rs)))))"

text \<open>
  The enumeration of \<^verbatim>\<open>renumber_frames\<close> runs over the frames of all rounds in order;
  \<open>index\<close> is the number of frames already visited, a round with null frames has none.
\<close>

fun renumber_frames_from :: "nat \<Rightarrow> game_round list \<Rightarrow> game_round list" where
  "renumber_frames_from index [] = []"
| "renumber_frames_from index (game_round # rest) =
     (case frames game_round of
        None \<Rightarrow> game_round # renumber_frames_from index rest
      | Some fs \<Rightarrow>
          game_round\<lparr>frames :=
              Some (map (\<lambda>(i, f). f\<lparr>globalFrameID := int i\<rparr>) (enumerate index fs))\<rparr>
            # renumber_frames_from (index + length fs) rest)"

definition renumber_frames :: "parser \<Rightarrow> error + parser" where
  "renumber_frames p =
     (case json p of
        None \<Rightarrow> Inl AttributeError
      | Some j \<Rightarrow>
          (case gameRounds j of
             None \<Rightarrow> Inr p
           | Some rs \<Rightarrow> Inr (set_rounds p j (renumber_frames_from 0 rs))))"

section \<open>Roster normalizer\<close>

text \<open>Sequencing of calls that may raise: the first exception ends the computation.\<close>

definition bind_err :: "error + 'a \<Rightarrow> ('a \<Rightarrow> error + 'b) \<Rightarrow> error + 'b" where
  "bind_err m f = (case m of Inl e \<Rightarrow> Inl e | Inr v \<Rightarrow> f v)"

text \<open>The keys \<^verbatim>\<open>"t"\<close> and \<^verbatim>\<open>"ct"\<close> of a frame, as passed to \<^verbatim>\<open>findFirstDeadPlayer\<close>.\<close>

datatype team_key = T_key | CT_key

definition frame_team :: "frame \<Rightarrow> team_key \<Rightarrow> team_frame" where
  "frame_team f sd = (case sd of T_key \<Rightarrow> f_t f | CT_key \<Rightarrow> f_ct f)"

subsection \<open>findFirstDeadPlayer\<close>

text \<open>
  The inner loop over the players of one frame. The result is the value of \<^verbatim>\<open>firstDied\<close>
  and whether a \<^verbatim>\<open>return\<close> was executed.
\<close>

fun dead_scan_players :: "int option \<Rightarrow> player list \<Rightarrow> int option \<times> bool" where
  "dead_scan_players firstDied [] = (firstDied, False)"
| "dead_scan_players firstDied (pl # rest) =
     (if \<not> isAlive pl then
        (case firstDied of
           None \<Rightarrow> (Some (steamID pl), True)
         | Some d \<Rightarrow>
             if steamID pl < d then (Some (steamID pl), True)
             else dead_scan_players firstDied rest)
      else dead_scan_players firstDied rest)"

fun dead_scan_frames :: "team_key \<Rightarrow> int option \<Rightarrow> frame list \<Rightarrow> error + int option" where
  "dead_scan_frames sd firstDied [] = Inr firstDied"
| "dead_scan_frames sd firstDied (f # rest) =
     (case players (frame_team f sd) of
        None \<Rightarrow> Inl TypeError
      | Some ps \<Rightarrow>
          (case dead_scan_players firstDied ps of
             (fd, True) \<Rightarrow> Inr fd
           | (fd, False) \<Rightarrow> dead_scan_frames sd fd rest))"

definition findFirstDeadPlayer :: "game_round \<Rightarrow> team_key \<Rightarrow> error + int option" where
  "findFirstDeadPlayer game_round sd =
     (case frames game_round of
        None \<Rightarrow> Inl TypeError
      | Some fs \<Rightarrow> dead_scan_frames sd None fs)"

subsection \<open>remove_player_from_round\<close>

text \<open>
  \<^verbatim>\<open>for player in xs: if player["steamID"] == removed_steamID: xs.remove(player)\<close>.
  The list iterator holds an index \<open>i\<close> into the list it walks, and stops when the index
  reaches the current length; \<^verbatim>\<open>remove\<close> deletes the first element equal to its argument.
\<close>

function remove_scan :: "('a \<Rightarrow> int) \<Rightarrow> int \<Rightarrow> nat \<Rightarrow> 'a list \<Rightarrow> 'a list" where
  "remove_scan sid_of removed_steamID i xs =
     (if i < length xs then
        (if sid_of (xs ! i) = removed_steamID
         then remove_scan sid_of removed_steamID (Suc i) (remove1 (xs ! i) xs)
         else remove_scan sid_of removed_steamID (Suc i) xs)
      else xs)"
  by pat_completeness auto
termination
  by (relation "measure (\<lambda>(sid_of, removed_steamID, i, xs). length xs - i)")
     (auto simp: length_remove1)

declare remove_scan.simps [simp del]

definition remove_from_roster :: "roster_team option \<Rightarrow> int \<Rightarrow> error + roster_team option" where
  "remove_from_roster team removed_steamID =
     (case team of
        None \<Rightarrow> Inl KeyError
      | Some tm \<Rightarrow>
          (case rt_players tm of
             None \<Rightarrow> Inl TypeError
           | Some ps \<Rightarrow>
               Inr (Some (tm\<lparr>rt_players := Some (remove_scan rp_steamID removed_steamID 0 ps)\<rparr>))))"

definition remove_from_team_frame :: "team_frame \<Rightarrow> int \<Rightarrow> team_frame" where
  "remove_from_team_frame tf removed_steamID =
     (case players tf of
        None \<Rightarrow> tf
      | Some ps \<Rightarrow> tf\<lparr>players := Some (remove_scan steamID removed_steamID 0 ps)\<rparr>)"

definition remove_from_frame :: "int \<Rightarrow> frame \<Rightarrow> frame" where
  "remove_from_frame removed_steamID f =
     f\<lparr>f_t := remove_from_team_frame (f_t f) removed_steamID,
       f_ct := remove_from_team_frame (f_ct f) removed_steamID\<rparr>"

definition remove_player_from_round :: "game_round \<Rightarrow> int \<Rightarrow> error + game_round" where
  "remove_player_from_round game_round removed_steamID =
     bind_err (remove_from_roster (tSide game_round) removed_steamID) (\<lambda>ts.
     bind_err (remove_from_roster (ctSide game_round) removed_steamID) (\<lambda>cts.
       (case frames game_round of
          None \<Rightarrow> Inl TypeError
        | Some fs \<Rightarrow>
            Inr (game_round\<lparr>tSide := ts, ctSide := cts,
                   frames := Some (map (remove_from_frame removed_steamID) fs)\<rparr>))))"

text \<open>\<^verbatim>\<open>for player in toBeRemoved: self.remove_player_from_round(...)\<close>.\<close>

fun remove_players :: "game_round \<Rightarrow> int list \<Rightarrow> error + game_round" where
  "remove_players game_round [] = Inr game_round"
| "remove_players game_round (sid # rest) =
     bind_err (remove_player_from_round game_round sid) (\<lambda>r. remove_players r rest)"

subsection \<open>remove_coaches_in_origin and remove_coaches_not_moving\<close>

definition at_origin :: "player \<Rightarrow> bool" where
  "at_origin pl = (p_x pl = 0 \<and> p_y pl = 0 \<and> p_z pl = 0)"

definition remove_coaches_in_origin :: "game_round \<Rightarrow> error + game_round" where
  "remove_coaches_in_origin game_round =
     (case frames game_round of
        None \<Rightarrow> Inl TypeError
      | Some [] \<Rightarrow> Inl IndexError
      | Some (first_frame # _) \<Rightarrow>
          (case players (f_t first_frame) of
             None \<Rightarrow> Inl TypeError
           | Some tps \<Rightarrow>
               (case players (f_ct first_frame) of
                  None \<Rightarrow> Inl TypeError
                | Some cps \<Rightarrow>
                    remove_players game_round
                      (map steamID (filter at_origin tps @ filter at_origin cps)))))"

definition position :: "player \<Rightarrow> real \<times> real \<times> real" where
  "position pl = (p_x pl, p_y pl, p_z pl)"

text \<open>The flag \<^verbatim>\<open>moved\<close> of one first-frame player after the scan of \<^verbatim>\<open>frames[1:]\<close>.\<close>

fun moved_in_frames :: "team_key \<Rightarrow> player \<Rightarrow> frame list \<Rightarrow> error + bool" where
  "moved_in_frames sd pl [] = Inr False"
| "moved_in_frames sd pl (f # rest) =
     (case players (frame_team f sd) of
        None \<Rightarrow> Inl TypeError
      | Some ps \<Rightarrow>
          if list_ex (\<lambda>q. steamID q = steamID pl \<and> position q \<noteq> position pl) ps
          then Inr True
          else moved_in_frames sd pl rest)"

fun collect_not_moving :: "team_key \<Rightarrow> player list \<Rightarrow> frame list \<Rightarrow> error + player list" where
  "collect_not_moving sd [] later = Inr []"
| "collect_not_moving sd (pl # pls) later =
     bind_err (moved_in_frames sd pl later) (\<lambda>moved.
     bind_err (collect_not_moving sd pls later) (\<lambda>out.
       Inr (if moved then out else pl # out)))"

definition remove_coaches_not_moving :: "game_round \<Rightarrow> error + game_round" where
  "remove_coaches_not_moving game_round =
     (case frames game_round of
        None \<Rightarrow> Inr game_round
      | Some [] \<Rightarrow> Inr game_round
      | Some (first_frame # later) \<Rightarrow>
          (case players (f_t first_frame) of
             None \<Rightarrow> Inl TypeError
           | Some tps \<Rightarrow>
               bind_err (collect_not_moving T_key tps later) (\<lambda>t_out.
                 (case players (f_ct first_frame) of
                    None \<Rightarrow> Inl TypeError
                  | Some cps \<Rightarrow>
                      bind_err (collect_not_moving CT_key cps later) (\<lambda>ct_out.
                        remove_players game_round (map steamID (t_out @ ct_out)))))))"

subsection \<open>switch_player_side\<close>

definition flip_side :: "string \<Rightarrow> string" where
  "flip_side s = (if s = ''CT'' then ''T'' else ''CT'')"

definition switch_rosters :: "game_round \<Rightarrow> int \<Rightarrow> error + game_round" where
  "switch_rosters game_round switched_steamID =
     (case tSide game_round of
        None \<Rightarrow> Inl KeyError
      | Some ts \<Rightarrow>
          (case rt_players ts of
             None \<Rightarrow> Inl TypeError
           | Some tps \<Rightarrow>
               (case find (\<lambda>pl. rp_steamID pl = switched_steamID) tps of
                  Some pl \<Rightarrow>
                    (case ctSide game_round of
                       None \<Rightarrow> Inl KeyError
                     | Some cs \<Rightarrow>
                         (case rt_players cs of
                            None \<Rightarrow> Inl AttributeError
                          | Some cps \<Rightarrow>
                              Inr (game_round
                                \<lparr>tSide := Some (ts\<lparr>rt_players := Some (remove1 pl tps)\<rparr>),
                                 ctSide := Some (cs\<lparr>rt_players := Some (cps @ [pl])\<rparr>)\<rparr>)))
                | None \<Rightarrow>
                    (case ctSide game_round of
                       None \<Rightarrow> Inl KeyError
                     | Some cs \<Rightarrow>
                         (case rt_players cs of
                            None \<Rightarrow> Inl TypeError
                          | Some cps \<Rightarrow>
                              (case find (\<lambda>pl. rp_steamID pl = switched_steamID) cps of
                                 Some pl \<Rightarrow>
                                   Inr (game_round
                                     \<lparr>tSide := Some (ts\<lparr>rt_players := Some (tps @ [pl])\<rparr>),
                                      ctSide := Some (cs\<lparr>rt_players := Some (remove1 pl cps)\<rparr>)\<rparr>)
                               | None \<Rightarrow> Inr game_round))))))"

definition switch_kill :: "int \<Rightarrow> kill \<Rightarrow> kill" where
  "switch_kill switched_steamID k =
     (let k1 = (if attackerSteamID k = switched_steamID
                then k\<lparr>attackerSide := flip_side (attackerSide k)\<rparr> else k)
      in if victimSteamID k1 = switched_steamID
         then k1\<lparr>victimSide := flip_side (victimSide k1)\<rparr> else k1)"

definition switch_damage :: "int \<Rightarrow> damage \<Rightarrow> damage" where
  "switch_damage switched_steamID d =
     (let d1 = (if dmg_attackerSteamID d = switched_steamID
                then d\<lparr>dmg_attackerSide := flip_side (dmg_attackerSide d)\<rparr> else d)
      in if dmg_victimSteamID d1 = switched_steamID
         then d1\<lparr>dmg_victimSide := flip_side (dmg_victimSide d1)\<rparr> else d1)"

definition switch_grenade :: "int \<Rightarrow> grenade \<Rightarrow> grenade" where
  "switch_grenade switched_steamID g =
     (if throwerSteamID g = switched_steamID
      then g\<lparr>throwerSide := flip_side (throwerSide g)\<rparr> else g)"

definition switch_weapon_fire :: "int \<Rightarrow> weapon_fire \<Rightarrow> weapon_fire" where
  "switch_weapon_fire switched_steamID w =
     (if playerSteamID w = switched_steamID
      then w\<lparr>playerSide := flip_side (playerSide w)\<rparr> else w)"

definition switch_flash :: "int \<Rightarrow> flash \<Rightarrow> flash" where
  "switch_flash switched_steamID fl =
     (let fl1 = (if fl_attackerSteamID fl = switched_steamID
                 then fl\<lparr>fl_attackerSide := flip_side (fl_attackerSide fl)\<rparr> else fl)
      in if fl_playerSteamID fl1 = switched_steamID
         then fl1\<lparr>fl_playerSide := flip_side (fl_playerSide fl1)\<rparr> else fl1)"

text \<open>The five event loops, in the order of the source; a null list cannot be iterated.\<close>

definition switch_events :: "game_round \<Rightarrow> int \<Rightarrow> error + game_round" where
  "switch_events game_round switched_steamID =
     (case kills game_round of None \<Rightarrow> Inl TypeError | Some ks \<Rightarrow>
     (case damages game_round of None \<Rightarrow> Inl TypeError | Some ds \<Rightarrow>
     (case grenades game_round of None \<Rightarrow> Inl TypeError | Some gs \<Rightarrow>
     (case weaponFires game_round of None \<Rightarrow> Inl TypeError | Some ws \<Rightarrow>
     (case flashes game_round of None \<Rightarrow> Inl TypeError | Some fls \<Rightarrow>
        Inr (game_round
          \<lparr>kills := Some (map (switch_kill switched_steamID) ks),
           damages := Some (map (switch_damage switched_steamID) ds),
           grenades := Some (map (switch_grenade switched_steamID) gs),
           weaponFires := Some (map (switch_weapon_fire switched_steamID) ws),
           flashes := Some (map (switch_flash switched_steamID) fls)\<rparr>))))))"

text \<open>The \<^verbatim>\<open>"ct"\<close> pass of the loop over one frame, run when the \<^verbatim>\<open>"t"\<close> pass found nobody.\<close>

definition switch_frame_ct :: "frame \<Rightarrow> int \<Rightarrow> error + frame" where
  "switch_frame_ct f switched_steamID =
     (case players (f_ct f) of
        None \<Rightarrow> Inr f
      | Some cps \<Rightarrow>
          (case find (\<lambda>pl. steamID pl = switched_steamID) cps of
             None \<Rightarrow> Inr f
           | Some pl \<Rightarrow>
               (case players (f_t f) of
                  None \<Rightarrow> Inl AttributeError
                | Some tps \<Rightarrow>
                    Inr (f\<lparr>f_t := (f_t f)\<lparr>players := Some (tps @ [pl\<lparr>side := ''T''\<rparr>])\<rparr>,
                           f_ct := (f_ct f)\<lparr>players := Some (remove1 pl cps)\<rparr>\<rparr>))))"

definition switch_frame :: "int \<Rightarrow> frame \<Rightarrow> error + frame" where
  "switch_frame switched_steamID f =
     (case players (f_t f) of
        None \<Rightarrow> switch_frame_ct f switched_steamID
      | Some tps \<Rightarrow>
          (case find (\<lambda>pl. steamID pl = switched_steamID) tps of
             None \<Rightarrow> switch_frame_ct f switched_steamID
           | Some pl \<Rightarrow>
               (case players (f_ct f) of
                  None \<Rightarrow> Inl AttributeError
                | Some cps \<Rightarrow>
                    Inr (f\<lparr>f_t := (f_t f)\<lparr>players := Some (remove1 pl tps)\<rparr>,
                           f_ct := (f_ct f)\<lparr>players := Some (cps @ [pl\<lparr>side := ''CT''\<rparr>])\<rparr>\<rparr>))))"

fun switch_frames :: "int \<Rightarrow> frame list \<Rightarrow> error + frame list" where
  "switch_frames switched_steamID [] = Inr []"
| "switch_frames switched_steamID (f # rest) =
     bind_err (switch_frame switched_steamID f) (\<lambda>f'.
     bind_err (switch_frames switched_steamID rest) (\<lambda>rest'. Inr (f' # rest')))"

definition switch_player_side :: "game_round \<Rightarrow> int \<Rightarrow> error + game_round" where
  "switch_player_side game_round switched_steamID =
     bind_err (switch_rosters game_round switched_steamID) (\<lambda>r1.
     bind_err (switch_events r1 switched_steamID) (\<lambda>r2.
       (case frames r2 of
          None \<Rightarrow> Inl TypeError
        | Some fs \<Rightarrow>
            bind_err (switch_frames switched_steamID fs) (\<lambda>fs'.
              Inr (r2\<lparr>frames := Some fs'\<rparr>)))))"

fun switch_players :: "game_round \<Rightarrow> int list \<Rightarrow> error + game_round" where
  "switch_players game_round [] = Inr game_round"
| "switch_players game_round (sid # rest) =
     bind_err (switch_player_side game_round sid) (\<lambda>r. switch_players r rest)"

subsection \<open>get_player_side\<close>

definition get_player_side :: "player \<Rightarrow> string \<Rightarrow> string" where
  "get_player_side pl map_name =
     (if map_name = ''de_ancient'' then (if p_y pl < 0 then ''T'' else ''CT'')
      else if map_name = ''de_anubis'' then (if p_y pl < 0 then ''T'' else ''CT'')
      else if map_name = ''de_inferno'' then (if p_x pl < 0 then ''T'' else ''CT'')
      else if map_name = ''de_mirage'' then (if p_x pl > 0 then ''T'' else ''CT'')
      else if map_name = ''de_nuke'' then (if p_x pl < 0 then ''T'' else ''CT'')
      else if map_name = ''de_overpass'' then (if p_y pl < 0 then ''T'' else ''CT'')
      else if map_name = ''de_vertigo'' then (if p_y pl < 0 then ''T'' else ''CT'')
      else side pl)"

subsection \<open>remove_excess_players\<close>

definition fix_roster :: "roster_team option \<Rightarrow> roster_team option" where
  "fix_roster team =
     (case team of
        None \<Rightarrow> Some \<lparr>rt_teamName = None, rt_players = Some []\<rparr>
      | Some tm \<Rightarrow>
          (case rt_players tm of
             None \<Rightarrow> Some (tm\<lparr>rt_players := Some []\<rparr>)
           | Some _ \<Rightarrow> Some tm))"

definition fix_team_frame :: "team_frame \<Rightarrow> team_frame" where
  "fix_team_frame tf = (case players tf of None \<Rightarrow> tf\<lparr>players := Some []\<rparr> | Some _ \<Rightarrow> tf)"

definition fix_frame :: "frame \<Rightarrow> frame" where
  "fix_frame f = f\<lparr>f_t := fix_team_frame (f_t f), f_ct := fix_team_frame (f_ct f)\<rparr>"

text \<open>The two "fix" loops at the head of the loop body, on a round whose frames are \<open>fs\<close>.\<close>

definition fix_round :: "game_round \<Rightarrow> frame list \<Rightarrow> game_round" where
  "fix_round game_round fs =
     game_round\<lparr>tSide := fix_roster (tSide game_round),
                ctSide := fix_roster (ctSide game_round),
                frames := Some (map fix_frame fs)\<rparr>"

text \<open>
  \<^verbatim>\<open>player_lists\<close> holds the two list objects of the first frame, which every later
  removal and switch mutates in place: reading \<^verbatim>\<open>player_lists[k]\<close> is reading the first
  frame of the round as it is at that moment.
\<close>

definition player_list :: "game_round \<Rightarrow> team_key \<Rightarrow> player list" where
  "player_list game_round sd =
     (case frames game_round of
        None \<Rightarrow> []
      | Some [] \<Rightarrow> []
      | Some (game_frame # _) \<Rightarrow> or_empty (players (frame_team game_frame sd)))"

definition over_limit :: "game_round \<Rightarrow> bool" where
  "over_limit game_round =
     (length (player_list game_round T_key) > 5 \<or> length (player_list game_round CT_key) > 5)"

text \<open>The steamIDs added to \<^verbatim>\<open>switchedPlayers\<close>, in the order of insertion.\<close>

definition mismatched :: "game_round \<Rightarrow> string \<Rightarrow> int list" where
  "mismatched game_round map_name =
     map steamID
       (filter (\<lambda>playerFrame. get_player_side playerFrame map_name \<noteq> side playerFrame)
          (player_list game_round T_key @ player_list game_round CT_key))"

text \<open>One \<^verbatim>\<open>while\<close> loop of the elimination, \<open>loop\<close> its counter (\<^verbatim>\<open>max_loops = 10\<close>).\<close>

function elimination_loop :: "team_key \<Rightarrow> nat \<Rightarrow> game_round \<Rightarrow> error + game_round" where
  "elimination_loop sd loop game_round =
     (if length (player_list game_round sd) > 5 \<and> loop < 10 then
        bind_err (findFirstDeadPlayer game_round sd) (\<lambda>firstDied.
          (case firstDied of
             None \<Rightarrow> Inr game_round
           | Some d \<Rightarrow>
               if d \<noteq> 0
               then bind_err (remove_player_from_round game_round d)
                      (elimination_loop sd (Suc loop))
               else Inr game_round))
      else Inr game_round)"
  by pat_completeness auto
termination
  by (relation "measure (\<lambda>(sd, loop, game_round). 10 - loop)") auto

declare elimination_loop.simps [simp del]

definition accepted :: "game_round \<Rightarrow> bool" where
  "accepted game_round =
     (length (player_list game_round T_key) \<le> 5 \<and> length (player_list game_round T_key) \<ge> 3
      \<and> length (player_list game_round CT_key) \<le> 5
      \<and> length (player_list game_round CT_key) \<ge> 3)"

text \<open>
  The part of the loop body after the two coach steps: side correction, the three
  elimination loops (the \<^verbatim>\<open>"t"\<close> loop stands twice in the source) and the acceptance test.
  \<open>set_order\<close> is the order in which Python iterates over the set built from the given
  insertions; \<open>None\<close> is a round that is not appended to \<^verbatim>\<open>cleaned_rounds\<close>.
\<close>

definition correct_and_accept ::
  "(int list \<Rightarrow> int list) \<Rightarrow> string \<Rightarrow> game_round \<Rightarrow> error + game_round option" where
  "correct_and_accept set_order map_name r2 =
     bind_err (switch_players r2 (set_order (mismatched r2 map_name))) (\<lambda>r3.
     bind_err (elimination_loop T_key 0 r3) (\<lambda>r4.
     bind_err (elimination_loop T_key 0 r4) (\<lambda>r5.
     bind_err (elimination_loop CT_key 0 r5) (\<lambda>r6.
       Inr (if accepted r6 then Some r6 else None)))))"

text \<open>The body of the loop over the rounds.\<close>

definition excess_players_round ::
  "(int list \<Rightarrow> int list) \<Rightarrow> string \<Rightarrow> game_round \<Rightarrow> error + game_round option" where
  "excess_players_round set_order map_name game_round =
     (case frames game_round of
        None \<Rightarrow> Inr None
      | Some [] \<Rightarrow> Inr None
      | Some (f # fs) \<Rightarrow>
          (let r0 = fix_round game_round (f # fs) in
           bind_err (if over_limit r0 then remove_coaches_in_origin r0 else Inr r0) (\<lambda>r1.
           bind_err (if over_limit r1 then remove_coaches_not_moving r1 else Inr r1) (\<lambda>r2.
             correct_and_accept set_order map_name r2))))"

fun excess_players_loop ::
  "(int list \<Rightarrow> int list) \<Rightarrow> string \<Rightarrow> game_round list \<Rightarrow> game_round list
     \<Rightarrow> error + game_round list" where
  "excess_players_loop set_order map_name [] cleaned_rounds = Inr cleaned_rounds"
| "excess_players_loop set_order map_name (game_round # rest) cleaned_rounds =
     bind_err (excess_players_round set_order map_name game_round) (\<lambda>res.
       (case res of
          None \<Rightarrow> excess_players_loop set_order map_name rest cleaned_rounds
        | Some r \<Rightarrow> excess_players_loop set_order map_name rest (cleaned_rounds @ [r])))"

definition remove_excess_players :: "(int list \<Rightarrow> int list) \<Rightarrow> parser \<Rightarrow> error + parser" where
  "remove_excess_players set_order p =
     (case json p of
        None \<Rightarrow> Inl AttributeError
      | Some j \<Rightarrow>
          if \<not> parse_frames p then Inr p
          else bind_err
                 (excess_players_loop set_order (mapName j) (or_empty (gameRounds j)) [])
                 (\<lambda>cleaned_rounds. Inr (set_rounds p j cleaned_rounds)))"

section \<open>Pipeline: clean_rounds\<close>

datatype return_type = Return_json | Return_df | Return_other

text \<open>
  The keyword arguments of \<^verbatim>\<open>clean_rounds\<close>. \<^verbatim>\<open>save_to_json\<close> only writes the document to
  a file and is left out.
\<close>

record clean_options =
  opt_remove_no_frames :: bool
  opt_remove_warmups :: bool
  opt_remove_knifes :: bool
  opt_remove_bad_timings :: bool
  opt_remove_excess_players :: bool
  opt_remove_excess_kills :: bool
  opt_remove_bad_endings :: bool
  opt_remove_bad_scoring :: bool
  opt_return_type :: return_type

definition all_enabled :: clean_options where
  "all_enabled =
     \<lparr>opt_remove_no_frames = True, opt_remove_warmups = True, opt_remove_knifes = True,
      opt_remove_bad_timings = True, opt_remove_excess_players = True,
      opt_remove_excess_kills = True, opt_remove_bad_endings = True,
      opt_remove_bad_scoring = True, opt_return_type = Return_json\<rparr>"

definition stage :: "bool \<Rightarrow> (parser \<Rightarrow> error + parser) \<Rightarrow> parser \<Rightarrow> error + parser" where
  "stage enabled f p = (if enabled then f p else Inr p)"

text \<open>The filters of \<^verbatim>\<open>clean_rounds\<close>, up to the renumbering.\<close>

definition clean_stages ::
  "(int list \<Rightarrow> int list) \<Rightarrow> clean_options \<Rightarrow> parser \<Rightarrow> error + parser" where
  "clean_stages set_order opts p =
     bind_err (stage (opt_remove_no_frames opts) remove_rounds_with_no_frames p) (\<lambda>p1.
     bind_err (stage (opt_remove_warmups opts) remove_warmups p1) (\<lambda>p2.
     bind_err (stage (opt_remove_knifes opts) remove_knife_rounds p2) (\<lambda>p3.
     bind_err (stage (opt_remove_bad_timings opts) remove_time_rounds p3) (\<lambda>p4.
     bind_err (stage (opt_remove_excess_players opts) (remove_excess_players set_order) p4) (\<lambda>p5.
     bind_err (stage (opt_remove_excess_kills opts) remove_excess_kill_rounds p5) (\<lambda>p6.
     bind_err (stage (opt_remove_bad_endings opts) (remove_end_round None) p6) (\<lambda>p7.
       stage (opt_remove_bad_scoring opts) remove_bad_scoring p7)))))))"

text \<open>
  \<^verbatim>\<open>clean_rounds\<close>: the result is the parser with the cleaned document (what the method
  returns for \<^verbatim>\<open>"json"\<close>, and the document the tables are made of for \<^verbatim>\<open>"df"\<close>).
\<close>

definition clean_rounds ::
  "(int list \<Rightarrow> int list) \<Rightarrow> clean_options \<Rightarrow> parser \<Rightarrow> error + parser" where
  "clean_rounds set_order opts p =
     (case json p of
        None \<Rightarrow> Inl AttributeError
      | Some _ \<Rightarrow>
          bind_err (clean_stages set_order opts p) (\<lambda>p8.
          bind_err (renumber_rounds p8) (\<lambda>p9.
          bind_err (renumber_frames p9) (\<lambda>p10.
            (case opt_return_type opts of
               Return_other \<Rightarrow> Inl ValueError
             | _ \<Rightarrow> Inr p10)))))"

section \<open>The retention rule of the specification\<close>

text \<open>The retention rule in the words of the specification, by position in the list.\<close>

definition spec_total :: "game_round \<Rightarrow> int" where
  "spec_total r = tScore r + ctScore r + endTScore r + endCTScore r"

definition spec_terminal_win :: "game_round \<Rightarrow> bool" where
  "spec_terminal_win r =
     ((endTScore r = 16 \<and> endCTScore r < 15)
      \<or> (endCTScore r = 16 \<and> endTScore r < 15)
      \<or> (3 dvd (endTScore r - 16) \<and> 15 < endTScore r \<and> endCTScore r + 2 \<le> endTScore r)
      \<or> (3 dvd (endCTScore r - 16) \<and> 15 < endCTScore r \<and> endTScore r + 2 \<le> endCTScore r))"

definition spec_retained :: "game_round list \<Rightarrow> nat \<Rightarrow> bool" where
  "spec_retained rs i =
     (if i + 1 < length rs
      then spec_total (rs ! i) < spec_total (rs ! (i + 1)) \<or> spec_terminal_win (rs ! i)
      else spec_total (rs ! (i - 1)) < spec_total (rs ! i))"

section \<open>Example documents\<close>

text \<open>Small documents on which the theorems below are instantiated.\<close>

definition example_player :: "int \<Rightarrow> string \<Rightarrow> real \<Rightarrow> bool \<Rightarrow> player" where
  "example_player sid sd xpos alive =
     \<lparr>steamID = sid, p_name = ''p'', side = sd, p_x = xpos, p_y = 0, p_z = 0,
      isAlive = alive, p_rest = 0\<rparr>"

definition example_team :: "player list \<Rightarrow> team_frame" where
  "example_team ps = \<lparr>teamName = ''team'', alivePlayers = 5, players = Some ps\<rparr>"

definition example_frame :: "player list \<Rightarrow> player list \<Rightarrow> frame" where
  "example_frame tps cps =
     \<lparr>tick = 0, globalFrameID = 0, f_t = example_team tps, f_ct = example_team cps\<rparr>"

definition example_roster :: "int list \<Rightarrow> roster_team option" where
  "example_roster sids =
     Some \<lparr>rt_teamName = Some ''team'',
           rt_players = Some (map (\<lambda>s. \<lparr>rp_steamID = s, playerName = ''p''\<rparr>) sids)\<rparr>"

text \<open>A round without players, events or frames, with the four given scores.\<close>

definition example_round :: "int \<Rightarrow> int \<Rightarrow> int \<Rightarrow> int \<Rightarrow> game_round" where
  "example_round ts cs ets ecs =
     \<lparr>roundNum = 1, isWarmup = False, startTick = 0, freezeTimeEndTick = 10, endTick = 20,
      endOfficialTick = 30, tScore = ts, ctScore = cs, endTScore = ets, endCTScore = ecs,
      winningSide = ''T'', roundEndReason = ''TargetBombed'',
      tSide = example_roster [], ctSide = example_roster [],
      kills = Some [], damages = Some [], grenades = Some [], weaponFires = Some [],
      flashes = Some [], frames = Some []\<rparr>"

definition example_game :: "(string \<times> int list) list \<Rightarrow> game_round list \<Rightarrow> game" where
  "example_game phases rs =
     \<lparr>matchID = ''m'', mapName = ''de_dust2'', matchPhases = phases, gameRounds = Some rs\<rparr>"

definition example_parser :: "(string \<times> int list) list \<Rightarrow> game_round list \<Rightarrow> parser" where
  "example_parser phases rs = \<lparr>json = Some (example_game phases rs), parse_frames = True\<rparr>"

text \<open>
  The knife rule as the specification words it (a round is dropped iff it has a kill and
  every kill used the knife), and the rule with the two further cases of the code.
\<close>

definition claimed_knife_dropped :: "game_round \<Rightarrow> bool" where
  "claimed_knife_dropped r =
     (or_empty (kills r) \<noteq> [] \<and> list_all (\<lambda>k. weapon k = ''Knife'') (or_empty (kills r)))"

definition knife_round_dropped :: "game_round \<Rightarrow> bool" where
  "knife_round_dropped r =
     (isWarmup r \<or> kills r = None \<or> claimed_knife_dropped r)"

text \<open>A loaded document whose round list is not null.\<close>

definition has_rounds :: "parser \<Rightarrow> bool" where
  "has_rounds p = (case json p of None \<Rightarrow> False | Some j \<Rightarrow> gameRounds j \<noteq> None)"

text \<open>The frames of all rounds, in the order of \<^verbatim>\<open>renumber_frames\<close>.\<close>

definition all_frames :: "game_round list \<Rightarrow> frame list" where
  "all_frames rs = concat (map (\<lambda>r. or_empty (frames r)) rs)"

text \<open>A round without the two numberings: what the renumbering must leave as it is.\<close>

definition erase_numbers :: "game_round \<Rightarrow> game_round" where
  "erase_numbers r =
     r\<lparr>roundNum := 0,
       frames := map_option (map (\<lambda>f. f\<lparr>globalFrameID := 0\<rparr>)) (frames r)\<rparr>"

text \<open>\<^verbatim>\<open>renumber_rounds\<close> followed by \<^verbatim>\<open>renumber_frames\<close>, on the round list.\<close>

definition renumbered :: "game_round list \<Rightarrow> game_round list" where
  "renumbered rs =
     renumber_frames_from 0 (map (\<lambda>(i, r). r\<lparr>roundNum := int i + 1\<rparr>) (enumerate 0 rs))"

text \<open>The steamIDs of a roster, of the two teams of a frame, and of all player lists of a round.\<close>

definition roster_id_list :: "roster_team option \<Rightarrow> int list" where
  "roster_id_list team =
     (case team of None \<Rightarrow> [] | Some tm \<Rightarrow> map rp_steamID (or_empty (rt_players tm)))"

definition frame_id_lists :: "frame \<Rightarrow> int list list" where
  "frame_id_lists f =
     [map steamID (or_empty (players (f_t f))), map steamID (or_empty (players (f_ct f)))]"

definition id_lists :: "game_round \<Rightarrow> int list list" where
  "id_lists r =
     [roster_id_list (tSide r), roster_id_list (ctSide r)]
       @ concat (map frame_id_lists (or_empty (frames r)))"

definition unique_ids :: "game_round \<Rightarrow> bool" where
  "unique_ids r = list_all distinct (id_lists r)"

text \<open>
  Both rosters and their player lists are present, and so is the frame list: the state of
  a round after the two fix loops of \<^verbatim>\<open>remove_excess_players\<close>.
\<close>

definition rosters_present :: "game_round \<Rightarrow> bool" where
  "rosters_present r =
     ((case tSide r of None \<Rightarrow> False | Some tm \<Rightarrow> rt_players tm \<noteq> None)
      \<and> (case ctSide r of None \<Rightarrow> False | Some tm \<Rightarrow> rt_players tm \<noteq> None)
      \<and> frames r \<noteq> None)"

text \<open>The first frame exists and has both player lists.\<close>

definition first_frame_present :: "game_round \<Rightarrow> bool" where
  "first_frame_present r =
     (case frames r of
        None \<Rightarrow> False
      | Some [] \<Rightarrow> False
      | Some (f # _) \<Rightarrow> players (f_t f) \<noteq> None \<and> players (f_ct f) \<noteq> None)"

text \<open>The first-frame players at the origin, whom \<^verbatim>\<open>remove_coaches_in_origin\<close> removes.\<close>

definition coaches :: "game_round \<Rightarrow> int list" where
  "coaches r =
     map steamID (filter at_origin (player_list r T_key) @ filter at_origin (player_list r CT_key))"

text \<open>Every steamID in a roster or a frame of the round, and the five event lists.\<close>

definition round_ids :: "game_round \<Rightarrow> int set" where
  "round_ids r = set (concat (id_lists r))"

definition events ::
  "game_round \<Rightarrow> kill list option \<times> damage list option \<times> grenade list option
     \<times> weapon_fire list option \<times> flash list option" where
  "events r = (kills r, damages r, grenades r, weaponFires r, flashes r)"

definition example_kill :: "int \<Rightarrow> int \<Rightarrow> string \<Rightarrow> kill" where
  "example_kill attacker victim wpn =
     \<lparr>attackerSteamID = attacker, attackerSide = ''CT'', victimSteamID = victim,
      victimSide = ''T'', weapon = wpn\<rparr>"

text \<open>
  A round whose first frame has player 9 at the origin on the T side, and a kill whose
  victim is player 9.
\<close>

definition example_coach_round :: game_round where
  "example_coach_round =
     (example_round 0 0 1 0)
       \<lparr>tSide := example_roster [9, 1], ctSide := example_roster [2],
        kills := Some [example_kill 2 9 ''AK-47''],
        frames := Some [example_frame
          [example_player 9 ''T'' 0 True, example_player 1 ''T'' 5 True]
          [example_player 2 ''CT'' 7 True]]\<rparr>"

text \<open>
  The move that \<^verbatim>\<open>switch_player_side\<close> makes between the two lists of a pair: the first
  element of the first list that satisfies \<open>P\<close> goes to the end of the second list (as
  \<open>g\<close> of it); when there is none, the first such element of the second list goes to the
  end of the first (as \<open>h\<close> of it).
\<close>

definition move_between ::
  "('a \<Rightarrow> bool) \<Rightarrow> ('a \<Rightarrow> 'a) \<Rightarrow> ('a \<Rightarrow> 'a) \<Rightarrow> 'a list \<times> 'a list \<Rightarrow> 'a list \<times> 'a list" where
  "move_between P g h pr =
     (case find P (fst pr) of
        Some p \<Rightarrow> (remove1 p (fst pr), snd pr @ [g p])
      | None \<Rightarrow>
          (case find P (snd pr) of
             Some p \<Rightarrow> (fst pr @ [h p], remove1 p (snd pr))
           | None \<Rightarrow> pr))"

text \<open>What the specification's "equal modulo list order" compares.\<close>

definition team_frame_equiv :: "team_frame \<Rightarrow> team_frame \<Rightarrow> bool" where
  "team_frame_equiv a b =
     (a\<lparr>players := None\<rparr> = b\<lparr>players := None\<rparr>
      \<and> map_option mset (players a) = map_option mset (players b))"

definition frame_equiv :: "frame \<Rightarrow> frame \<Rightarrow> bool" where
  "frame_equiv f g =
     (tick f = tick g \<and> globalFrameID f = globalFrameID g
      \<and> team_frame_equiv (f_t f) (f_t g) \<and> team_frame_equiv (f_ct f) (f_ct g))"

definition roster_equiv :: "roster_team option \<Rightarrow> roster_team option \<Rightarrow> bool" where
  "roster_equiv a b =
     (map_option rt_teamName a = map_option rt_teamName b
      \<and> map_option (\<lambda>tm. map_option mset (rt_players tm)) a
          = map_option (\<lambda>tm. map_option mset (rt_players tm)) b)"

definition frames_equiv :: "frame list option \<Rightarrow> frame list option \<Rightarrow> bool" where
  "frames_equiv a b =
     (case a of
        None \<Rightarrow> b = None
      | Some fs \<Rightarrow> (case b of None \<Rightarrow> False | Some gs \<Rightarrow> list_all2 frame_equiv fs gs))"

text \<open>
  Two rounds are equal up to the order of the player lists: every scalar and every event
  list is the same, and the rosters and the teams of each frame hold the same entries.
\<close>

definition round_equiv :: "game_round \<Rightarrow> game_round \<Rightarrow> bool" where
  "round_equiv r r' =
     (r\<lparr>tSide := None, ctSide := None, frames := None\<rparr>
        = r'\<lparr>tSide := None, ctSide := None, frames := None\<rparr>
      \<and> roster_equiv (tSide r) (tSide r') \<and> roster_equiv (ctSide r) (ctSide r')
      \<and> frames_equiv (frames r) (frames r'))"

definition events_present :: "game_round \<Rightarrow> bool" where
  "events_present r =
     (kills r \<noteq> None \<and> damages r \<noteq> None \<and> grenades r \<noteq> None \<and> weaponFires r \<noteq> None
      \<and> flashes r \<noteq> None)"

definition both_present :: "frame \<Rightarrow> bool" where
  "both_present f = (players (f_t f) \<noteq> None \<and> players (f_ct f) \<noteq> None)"

definition frames_present :: "game_round \<Rightarrow> bool" where
  "frames_present r =
     (case frames r of None \<Rightarrow> False | Some fs \<Rightarrow> list_all both_present fs)"

definition side_ok :: "string \<Rightarrow> bool" where
  "side_ok s = (s = ''T'' \<or> s = ''CT'')"

text \<open>Every event side label of player \<open>sid\<close> is T or CT.\<close>

definition events_labelled :: "game_round \<Rightarrow> int \<Rightarrow> bool" where
  "events_labelled r sid =
     (list_all (\<lambda>k. (attackerSteamID k = sid \<longrightarrow> side_ok (attackerSide k))
                  \<and> (victimSteamID k = sid \<longrightarrow> side_ok (victimSide k))) (or_empty (kills r))
      \<and> list_all (\<lambda>d. (dmg_attackerSteamID d = sid \<longrightarrow> side_ok (dmg_attackerSide d))
                  \<and> (dmg_victimSteamID d = sid \<longrightarrow> side_ok (dmg_victimSide d)))
            (or_empty (damages r))
      \<and> list_all (\<lambda>g. throwerSteamID g = sid \<longrightarrow> side_ok (throwerSide g))
            (or_empty (grenades r))
      \<and> list_all (\<lambda>w. playerSteamID w = sid \<longrightarrow> side_ok (playerSide w))
            (or_empty (weaponFires r))
      \<and> list_all (\<lambda>fl. (fl_attackerSteamID fl = sid \<longrightarrow> side_ok (fl_attackerSide fl))
                  \<and> (fl_playerSteamID fl = sid \<longrightarrow> side_ok (fl_playerSide fl)))
            (or_empty (flashes r)))"

text \<open>Player \<open>sid\<close> is at most once in the two rosters.\<close>

definition roster_once :: "game_round \<Rightarrow> int \<Rightarrow> bool" where
  "roster_once r sid =
     (length (filter (\<lambda>s. s = sid) (roster_id_list (tSide r) @ roster_id_list (ctSide r))) \<le> 1)"

text \<open>
  Player \<open>sid\<close> is at most once in the two teams of the frame, and carries the side label
  of the team list that holds the entry.
\<close>

definition frame_once :: "int \<Rightarrow> frame \<Rightarrow> bool" where
  "frame_once sid f =
     (length (filter (\<lambda>p. steamID p = sid)
                (or_empty (players (f_t f)) @ or_empty (players (f_ct f)))) \<le> 1
      \<and> list_all (\<lambda>p. steamID p = sid \<longrightarrow> side p = ''T'') (or_empty (players (f_t f)))
      \<and> list_all (\<lambda>p. steamID p = sid \<longrightarrow> side p = ''CT'') (or_empty (players (f_ct f))))"

definition switch_ready :: "game_round \<Rightarrow> int \<Rightarrow> bool" where
  "switch_ready r sid =
     (rosters_present r \<and> events_present r \<and> frames_present r \<and> roster_once r sid
      \<and> events_labelled r sid \<and> list_all (frame_once sid) (or_empty (frames r)))"

text \<open>The frame after the switch of player \<open>sid\<close>, when both player lists are present.\<close>

definition switched_frame :: "int \<Rightarrow> frame \<Rightarrow> frame" where
  "switched_frame sid f =
     (let m = move_between (\<lambda>pl. steamID pl = sid) (\<lambda>pl. pl\<lparr>side := ''CT''\<rparr>)
                (\<lambda>pl. pl\<lparr>side := ''T''\<rparr>)
                (or_empty (players (f_t f)), or_empty (players (f_ct f)))
      in f\<lparr>f_t := (f_t f)\<lparr>players := Some (fst m)\<rparr>,
           f_ct := (f_ct f)\<lparr>players := Some (snd m)\<rparr>\<rparr>)"

text \<open>
  The round \<open>example_coach_round\<close> with player 1 on the T list of the frame under the
  side label CT.
\<close>

definition example_mislabelled_round :: game_round where
  "example_mislabelled_round =
     example_coach_round
       \<lparr>frames := Some [example_frame
          [example_player 9 ''T'' 0 True, example_player 1 ''CT'' 5 True]
          [example_player 2 ''CT'' 7 True]]\<rparr>"

text \<open>
  A round as the two fix loops of \<^verbatim>\<open>remove_excess_players\<close> leave it: both rosters and
  every player list are present and there is a frame.
\<close>

definition normal :: "game_round \<Rightarrow> bool" where
  "normal r = (rosters_present r \<and> frames_present r \<and> frames r \<noteq> Some [])"


text \<open>
  A round with one frame of three living players on each side, each labelled with the side
  of its list, and the four given scores.
\<close>

definition example_played_round :: "int \<Rightarrow> int \<Rightarrow> int \<Rightarrow> int \<Rightarrow> game_round" where
  "example_played_round ts cs ets ecs =
     (example_round ts cs ets ecs)
       \<lparr>tSide := example_roster [1, 2, 3], ctSide := example_roster [4, 5, 6],
        frames := Some [example_frame
          [example_player 1 ''T'' 1 True, example_player 2 ''T'' 2 True,
           example_player 3 ''T'' 3 True]
          [example_player 4 ''CT'' 4 True, example_player 5 ''CT'' 5 True,
           example_player 6 ''CT'' 6 True]]\<rparr>"













section \<open>Facts about the example documents\<close>

lemma example_parser_json: "json (example_parser ph rs) = Some (example_game ph rs)"
  by (simp add: example_parser_def)

lemma example_game_rounds: "gameRounds (example_game ph rs) = Some rs"
  by (simp add: example_game_def)

lemma example_set_rounds:
  "set_rounds (example_parser ph rs) (example_game ph rs) rs' = example_parser ph rs'"
  by (simp add: example_parser_def example_game_def set_rounds_def)

lemma example_round_scores:
  "tScore (example_round a b c d) = a" "ctScore (example_round a b c d) = b"
  "endTScore (example_round a b c d) = c" "endCTScore (example_round a b c d) = d"
  by (simp_all add: example_round_def)

section \<open>Properties of the score consistency check\<close>

lemma round_total_spec: "round_total r = spec_total r"
  by (simp add: round_total_def spec_total_def)

lemma has_winner_spec: "has_winner_and_not_winner r = spec_terminal_win r"
  unfolding has_winner_and_not_winner_def spec_terminal_win_def Let_def
  by (simp add: dvd_eq_mod_eq_0) presburger

lemma bad_scoring_loop_spec:
  assumes "2 \<le> length rs"
  shows "drop k rs = xs \<Longrightarrow>
    bad_scoring_loop rs (enumerate k xs) acc =
      Inr (acc @ map ((!) rs) (filter (spec_retained rs) [k..<length rs]))"
proof (induction xs arbitrary: k acc)
  case Nil
  then have "length rs \<le> k" by simp
  then show ?case by simp
next
  case (Cons x xs)
  from Cons.prems have k: "k < length rs"
    by (metis drop_eq_Nil2 list.distinct(1) not_le_imp_less)
  from Cons.prems k have x: "x = rs ! k"
    by (metis Cons_nth_drop_Suc list.inject)
  from Cons.prems k have rest: "drop (Suc k) rs = xs"
    by (metis Cons_nth_drop_Suc list.inject)
  have upt: "[k..<length rs] = k # [Suc k..<length rs]"
    using k by (simp add: upt_conv_Cons)
  note IH = Cons.IH [OF rest]
  show ?case
  proof (cases "Suc k < length rs")
    case True
    then have idx: "py_index rs (int k + 1) = Inr (rs ! Suc k)"
      by (simp add: py_index_def nat_add_distrib)
    from True show ?thesis
      by (simp add: idx IH upt x spec_retained_def round_total_spec has_winner_spec)
  next
    case False
    with k have last: "Suc k = length rs" by simp
    with assms have "1 \<le> k" by simp
    then have idx: "py_index rs (int k - 1) = Inr (rs ! (k - 1))"
      using k by (simp add: py_index_def nat_diff_distrib)
    from rest last have nil: "xs = []" by auto
    from last show ?thesis
      by (simp add: idx nil upt x spec_retained_def round_total_spec)
  qed
qed

text \<open>
  C5. On a match with at least two rounds, the score consistency check keeps exactly the
  rounds the specification's rule retains: a round that is not the last is kept iff the
  next round's total is strictly greater or the round is a terminal win (regulation or
  overtime), and the last round is kept iff its total is strictly greater than the total
  of the round before it.
\<close>

theorem remove_bad_scoring_retention:
  assumes "json p = Some j" and "gameRounds j = Some rs" and "2 \<le> length rs"
  shows "remove_bad_scoring p =
    Inr (set_rounds p j (map ((!) rs) (filter (spec_retained rs) [0..<length rs])))"
  using assms bad_scoring_loop_spec [of rs 0 rs "[]"]
  by (simp add: remove_bad_scoring_def)

theorem remove_bad_scoring_retention_witness:
  "remove_bad_scoring
     (example_parser []
        [example_round 0 0 1 0, example_round 1 0 1 1, example_round 1 1 1 0,
         example_round 1 1 2 1])
   = Inr (example_parser []
        [example_round 0 0 1 0, example_round 1 1 1 0, example_round 1 1 2 1])"
  using remove_bad_scoring_retention [OF example_parser_json example_game_rounds,
    of "[example_round 0 0 1 0, example_round 1 0 1 1, example_round 1 1 1 0,
         example_round 1 1 2 1]" "[]"]
  by (simp add: example_set_rounds spec_retained_def spec_total_def spec_terminal_win_def
        example_round_scores)

text \<open>
  C10. A round list with exactly one round is emptied by the score consistency check:
  the only round takes the branch of the last round, the index \<open>i - 1 = -1\<close> reads the
  round itself, and its total is not strictly greater than itself.
\<close>

theorem remove_bad_scoring_single_round:
  assumes "json p = Some j" and "gameRounds j = Some [r]"
  shows "remove_bad_scoring p = Inr (set_rounds p j [])"
  using assms by (simp add: remove_bad_scoring_def py_index_def)

theorem remove_bad_scoring_single_round_witness:
  "remove_bad_scoring (example_parser [] [example_round 0 0 1 0])
     = Inr (example_parser [] [])"
  using remove_bad_scoring_single_round [OF example_parser_json example_game_rounds,
    of "[]" "example_round 0 0 1 0"]
  by (simp add: example_set_rounds)

section \<open>Properties of the scalar filters\<close>

text \<open>
  C1. The specification lets the warmup filter keep every round when the match metadata
  has no \<^verbatim>\<open>warmupChanged\<close> key. The code assigns the empty \<^verbatim>\<open>cleaned_rounds\<close> in that
  case: a document without the key, holding one round that is not a warmup, comes out
  with no round.
\<close>

theorem remove_warmups_without_marker:
  "remove_warmups (example_parser [] [example_round 0 0 1 0]) = Inr (example_parser [] [])"
  by (simp add: remove_warmups_def example_parser_def example_game_def set_rounds_def)

section \<open>Properties of the roster normalizer\<close>

text \<open>
  C7. The specification prefers the lowest steamID among the dead players of the first
  frame that has one. \<^verbatim>\<open>findFirstDeadPlayer\<close> returns at the first dead player it meets:
  with the dead players 7 and 3 in this order in the only frame, it returns 7.
\<close>

theorem findFirstDeadPlayer_first_in_list:
  "findFirstDeadPlayer
     ((example_round 0 0 1 0)
        \<lparr>frames := Some [example_frame
           [example_player 7 ''T'' 1 False, example_player 3 ''T'' 2 False] []]\<rparr>)
     T_key = Inr (Some 7)"
  by (simp add: findFirstDeadPlayer_def example_frame_def example_team_def
        example_player_def frame_team_def)

section \<open>Properties of the knife filter and of the renumbering\<close>

lemma length_filter_all: "(length (filter P xs) = length xs) = list_all P xs"
  using sum_length_filter_compl [of P xs]
  by (auto simp: list_all_iff filter_empty_conv)

lemma knife_loop_filter:
  "knife_loop rs acc = acc @ filter (\<lambda>r. \<not> knife_round_dropped r) rs"
proof (induction rs arbitrary: acc)
  case Nil
  show ?case by simp
next
  case (Cons r rs)
  show ?case
  proof (cases "kills r")
    case None
    then show ?thesis by (simp add: Cons.IH knife_round_dropped_def)
  next
    case (Some ks)
    then show ?thesis
      by (auto simp: Cons.IH knife_round_dropped_def claimed_knife_dropped_def or_empty_def
            Let_def length_filter_all)
  qed
qed

text \<open>
  C6 (amended). The knife filter drops a round iff the round is flagged as a warmup, or its
  kill list is null, or it has at least one kill and every kill used the knife; a round
  that is not a warmup and has an empty kill list is kept.
\<close>

theorem remove_knife_rounds_drops:
  assumes "json p = Some j" and "gameRounds j = Some rs"
  shows "remove_knife_rounds p =
           Inr (set_rounds p j (filter (\<lambda>r. \<not> knife_round_dropped r) rs))
         \<and> (\<forall>r. \<not> isWarmup r \<and> kills r = Some [] \<longrightarrow> \<not> knife_round_dropped r)"
  using assms
  by (simp add: remove_knife_rounds_def knife_loop_filter knife_round_dropped_def
        claimed_knife_dropped_def or_empty_def)

theorem remove_knife_rounds_drops_witness:
  "json (example_parser []
      [(example_round 0 0 1 0)
         \<lparr>kills := Some [example_kill 1 2 ''Knife'', example_kill 1 3 ''Knife'']\<rparr>,
       (example_round 0 0 1 0)
         \<lparr>kills := Some [example_kill 1 2 ''Knife'', example_kill 1 3 ''AK-47'']\<rparr>,
       example_round 0 0 1 0,
       (example_round 0 0 1 0)\<lparr>isWarmup := True\<rparr>])
     = Some (example_game []
      [(example_round 0 0 1 0)
         \<lparr>kills := Some [example_kill 1 2 ''Knife'', example_kill 1 3 ''Knife'']\<rparr>,
       (example_round 0 0 1 0)
         \<lparr>kills := Some [example_kill 1 2 ''Knife'', example_kill 1 3 ''AK-47'']\<rparr>,
       example_round 0 0 1 0,
       (example_round 0 0 1 0)\<lparr>isWarmup := True\<rparr>])
   \<and> remove_knife_rounds (example_parser []
      [(example_round 0 0 1 0)
         \<lparr>kills := Some [example_kill 1 2 ''Knife'', example_kill 1 3 ''Knife'']\<rparr>,
       (example_round 0 0 1 0)
         \<lparr>kills := Some [example_kill 1 2 ''Knife'', example_kill 1 3 ''AK-47'']\<rparr>,
       example_round 0 0 1 0,
       (example_round 0 0 1 0)\<lparr>isWarmup := True\<rparr>])
     = Inr (example_parser []
      [(example_round 0 0 1 0)
         \<lparr>kills := Some [example_kill 1 2 ''Knife'', example_kill 1 3 ''AK-47'']\<rparr>,
       example_round 0 0 1 0])
   \<and> \<not> isWarmup (example_round 0 0 1 0) \<and> kills (example_round 0 0 1 0) = Some []
   \<and> \<not> knife_round_dropped (example_round 0 0 1 0)"
  using remove_knife_rounds_drops [OF example_parser_json example_game_rounds, of "[]"
    "[(example_round 0 0 1 0)
         \<lparr>kills := Some [example_kill 1 2 ''Knife'', example_kill 1 3 ''Knife'']\<rparr>,
       (example_round 0 0 1 0)
         \<lparr>kills := Some [example_kill 1 2 ''Knife'', example_kill 1 3 ''AK-47'']\<rparr>,
       example_round 0 0 1 0,
       (example_round 0 0 1 0)\<lparr>isWarmup := True\<rparr>]"]
  by (simp add: example_set_rounds example_parser_json knife_round_dropped_def
        claimed_knife_dropped_def or_empty_def example_round_def example_kill_def)

text \<open>
  C6 as stated fails: a round that is not a warmup and whose kill list is null has no
  kill, so the stated rule keeps it, and the filter drops it.
\<close>

theorem remove_knife_rounds_null_kills:
  "\<not> claimed_knife_dropped ((example_round 0 0 1 0)\<lparr>kills := None\<rparr>)
   \<and> remove_knife_rounds (example_parser [] [(example_round 0 0 1 0)\<lparr>kills := None\<rparr>])
       = Inr (example_parser [] [])"
  by (simp add: remove_knife_rounds_def example_parser_def example_game_def set_rounds_def
        claimed_knife_dropped_def or_empty_def example_round_def)

lemma all_frames_Nil: "all_frames [] = []"
  by (simp add: all_frames_def)

lemma all_frames_Cons: "all_frames (r # rs) = or_empty (frames r) @ all_frames rs"
  by (simp add: all_frames_def)

lemma renumber_rounds_nums:
  "map roundNum (map (\<lambda>(i, r). r\<lparr>roundNum := int i + 1\<rparr>) (enumerate k rs))
     = map (\<lambda>i. int i + 1) [k..<k + length rs]"
  by (rule nth_equalityI) (simp_all add: nth_enumerate_eq)

lemma renumber_rounds_erase:
  "map erase_numbers (map (\<lambda>(i, r). r\<lparr>roundNum := int i + 1\<rparr>) (enumerate k rs))
     = map erase_numbers rs"
  by (rule nth_equalityI) (simp_all add: nth_enumerate_eq erase_numbers_def)

lemma renumber_rounds_frames:
  "all_frames (map (\<lambda>(i, r). r\<lparr>roundNum := int i + 1\<rparr>) (enumerate k rs)) = all_frames rs"
  by (induction rs arbitrary: k) (simp_all add: all_frames_Nil all_frames_Cons)

lemma renumber_frames_ids:
  "map globalFrameID (map (\<lambda>(i, f). f\<lparr>globalFrameID := int i\<rparr>) (enumerate k fs))
     = map int [k..<k + length fs]"
  by (rule nth_equalityI) (simp_all add: nth_enumerate_eq)

lemma renumber_frames_from_ids:
  "map globalFrameID (all_frames (renumber_frames_from k rs))
     = map int [k..<k + length (all_frames rs)]"
proof (induction rs arbitrary: k)
  case Nil show ?case by (simp add: all_frames_Nil)
next
  case (Cons r rs)
  show ?case
  proof (cases "frames r")
    case None
    then show ?thesis using Cons.IH [of k] by (simp add: all_frames_Cons or_empty_def)
  next
    case (Some fs)
    let ?fs' = "map (\<lambda>(i, f). f\<lparr>globalFrameID := int i\<rparr>) (enumerate k fs)"
    have split: "[k..<k + length fs + length (all_frames rs)]
            = [k..<k + length fs] @ [k + length fs..<k + length fs + length (all_frames rs)]"
      by (rule upt_add_eq_append) simp
    have "all_frames (renumber_frames_from k (r # rs))
            = ?fs' @ all_frames (renumber_frames_from (k + length fs) rs)"
      using Some by (simp add: all_frames_Cons or_empty_def)
    then have "map globalFrameID (all_frames (renumber_frames_from k (r # rs)))
            = map int [k..<k + length fs]
              @ map int [k + length fs..<k + length fs + length (all_frames rs)]"
      by (simp only: map_append renumber_frames_ids Cons.IH)
    also have "\<dots> = map int [k..<k + length fs + length (all_frames rs)]"
      by (simp only: split map_append)
    also have "k + length fs + length (all_frames rs) = k + length (all_frames (r # rs))"
      using Some by (simp add: all_frames_Cons or_empty_def)
    finally show ?thesis .
  qed
qed

lemma renumber_frames_from_nums:
  "map roundNum (renumber_frames_from k rs) = map roundNum rs"
  by (induction rs arbitrary: k) (simp_all split: option.splits)

lemma erase_frame_ids:
  "map (\<lambda>f. f\<lparr>globalFrameID := 0\<rparr>) (map (\<lambda>(i, f). f\<lparr>globalFrameID := int i\<rparr>) (enumerate k fs))
     = map (\<lambda>f. f\<lparr>globalFrameID := 0\<rparr>) fs"
  by (rule nth_equalityI) (simp_all add: nth_enumerate_eq)

lemma erase_numbers_renumbered:
  assumes "frames r = Some fs"
  shows "erase_numbers
           (r\<lparr>frames := Some (map (\<lambda>(i, f). f\<lparr>globalFrameID := int i\<rparr>) (enumerate k fs))\<rparr>)
         = erase_numbers r"
  using assms erase_frame_ids [of k fs] by (simp add: erase_numbers_def del: map_map)

lemma renumber_frames_from_erase:
  "map erase_numbers (renumber_frames_from k rs) = map erase_numbers rs"
  by (induction rs arbitrary: k) (simp_all add: erase_numbers_renumbered split: option.splits)

lemma renumber_frames_from_length:
  "length (renumber_frames_from k rs) = length rs"
  by (induction rs arbitrary: k) (simp_all split: option.splits)

section \<open>Properties of the pipeline\<close>

lemma bind_err_Inr: "(bind_err m f = Inr y) = (\<exists>x. m = Inr x \<and> f x = Inr y)"
  by (cases m) (simp_all add: bind_err_def)

lemma has_rounds_set_rounds: "has_rounds (set_rounds p j rs)"
  by (simp add: has_rounds_def set_rounds_def)

lemma has_rounds_no_frames:
  "remove_rounds_with_no_frames p = Inr p' \<Longrightarrow> has_rounds p \<Longrightarrow> has_rounds p'"
  by (auto simp: remove_rounds_with_no_frames_def has_rounds_set_rounds
        split: option.splits if_splits)

lemma has_rounds_warmups: "remove_warmups p = Inr p' \<Longrightarrow> has_rounds p \<Longrightarrow> has_rounds p'"
  by (auto simp: remove_warmups_def has_rounds_set_rounds split: option.splits)

lemma has_rounds_knife: "remove_knife_rounds p = Inr p' \<Longrightarrow> has_rounds p \<Longrightarrow> has_rounds p'"
  by (auto simp: remove_knife_rounds_def has_rounds_set_rounds split: option.splits)

lemma has_rounds_time: "remove_time_rounds p = Inr p' \<Longrightarrow> has_rounds p \<Longrightarrow> has_rounds p'"
  by (auto simp: remove_time_rounds_def has_rounds_set_rounds split: option.splits)

lemma has_rounds_excess_players:
  "remove_excess_players ord p = Inr p' \<Longrightarrow> has_rounds p \<Longrightarrow> has_rounds p'"
  by (auto simp: remove_excess_players_def has_rounds_set_rounds bind_err_Inr
        split: option.splits if_splits)

lemma has_rounds_excess_kills:
  "remove_excess_kill_rounds p = Inr p' \<Longrightarrow> has_rounds p \<Longrightarrow> has_rounds p'"
  by (auto simp: remove_excess_kill_rounds_def has_rounds_set_rounds split: option.splits)

lemma has_rounds_end_round:
  "remove_end_round b p = Inr p' \<Longrightarrow> has_rounds p \<Longrightarrow> has_rounds p'"
  by (auto simp: remove_end_round_def has_rounds_set_rounds Let_def split: option.splits)

lemma has_rounds_bad_scoring:
  "remove_bad_scoring p = Inr p' \<Longrightarrow> has_rounds p \<Longrightarrow> has_rounds p'"
  by (auto simp: remove_bad_scoring_def has_rounds_set_rounds split: option.splits sum.splits)

lemma has_rounds_stage:
  assumes "stage enabled f p = Inr p'" and "has_rounds p"
    and "\<And>q q'. f q = Inr q' \<Longrightarrow> has_rounds q \<Longrightarrow> has_rounds q'"
  shows "has_rounds p'"
  using assms by (cases enabled) (auto simp: stage_def)

lemma has_rounds_clean_stages:
  assumes "clean_stages ord opts p = Inr p'" and h0: "has_rounds p"
  shows "has_rounds p'"
proof -
  from assms(1) obtain p1 p2 p3 p4 p5 p6 p7 where
    s1: "stage (opt_remove_no_frames opts) remove_rounds_with_no_frames p = Inr p1" and
    s2: "stage (opt_remove_warmups opts) remove_warmups p1 = Inr p2" and
    s3: "stage (opt_remove_knifes opts) remove_knife_rounds p2 = Inr p3" and
    s4: "stage (opt_remove_bad_timings opts) remove_time_rounds p3 = Inr p4" and
    s5: "stage (opt_remove_excess_players opts) (remove_excess_players ord) p4 = Inr p5" and
    s6: "stage (opt_remove_excess_kills opts) remove_excess_kill_rounds p5 = Inr p6" and
    s7: "stage (opt_remove_bad_endings opts) (remove_end_round None) p6 = Inr p7" and
    s8: "stage (opt_remove_bad_scoring opts) remove_bad_scoring p7 = Inr p'"
    unfolding clean_stages_def bind_err_Inr by blast
  have h1: "has_rounds p1" by (rule has_rounds_stage [OF s1 h0]) (rule has_rounds_no_frames)
  have h2: "has_rounds p2" by (rule has_rounds_stage [OF s2 h1]) (rule has_rounds_warmups)
  have h3: "has_rounds p3" by (rule has_rounds_stage [OF s3 h2]) (rule has_rounds_knife)
  have h4: "has_rounds p4" by (rule has_rounds_stage [OF s4 h3]) (rule has_rounds_time)
  have h5: "has_rounds p5"
    by (rule has_rounds_stage [OF s5 h4]) (rule has_rounds_excess_players)
  have h6: "has_rounds p6" by (rule has_rounds_stage [OF s6 h5]) (rule has_rounds_excess_kills)
  have h7: "has_rounds p7" by (rule has_rounds_stage [OF s7 h6]) (rule has_rounds_end_round)
  show ?thesis by (rule has_rounds_stage [OF s8 h7]) (rule has_rounds_bad_scoring)
qed

lemma upto_from_one: "map (\<lambda>i. int i + 1) [0..<n] = [1..int n]"
proof (induction n)
  case 0 show ?case by simp
next
  case (Suc n)
  have "[1..int (Suc n)] = [1..int n] @ [int n + 1]"
    using upto_rec2 [of 1 "int n + 1"] by (simp add: add.commute)
  then show ?case using Suc by simp
qed

lemma renumbered_length: "length (renumbered rs) = length rs"
  by (simp add: renumbered_def renumber_frames_from_length)

lemma renumbered_nums: "map roundNum (renumbered rs) = [1..int (length (renumbered rs))]"
  using renumber_rounds_nums [of 0 rs]
  by (simp add: renumbered_length upto_from_one [symmetric])
     (simp add: renumbered_def renumber_frames_from_nums)

lemma renumbered_erase: "map erase_numbers (renumbered rs) = map erase_numbers rs"
  by (simp only: renumbered_def renumber_frames_from_erase renumber_rounds_erase)

lemma renumbered_ids:
  "map globalFrameID (all_frames (renumbered rs))
     = map int [0..<length (all_frames (renumbered rs))]"
proof -
  have "length (all_frames (renumbered rs)) = length (map globalFrameID (all_frames (renumbered rs)))"
    by simp
  also have "\<dots> = length (all_frames rs)"
    unfolding renumbered_def renumber_frames_from_ids
    by (simp add: renumber_rounds_frames)
  finally show ?thesis
    using renumber_frames_from_ids [of 0 "map (\<lambda>(i, r). r\<lparr>roundNum := int i + 1\<rparr>) (enumerate 0 rs)"]
    by (simp add: renumbered_def renumber_rounds_frames)
qed

lemma renumber_both:
  assumes "json p8 = Some j8" and "gameRounds j8 = Some rs8"
  shows "bind_err (renumber_rounds p8) renumber_frames = Inr (set_rounds p8 j8 (renumbered rs8))"
  using assms
  by (simp add: bind_err_def renumber_rounds_def renumber_frames_def set_rounds_def
        renumbered_def)

text \<open>
  C8. When \<^verbatim>\<open>clean_rounds\<close> returns on a loaded document whose round list is not null, the
  round numbers of the result are 1..N in list order, the global frame identifiers of its
  frames (rounds in order, frames in order) are 0..M-1, and the result differs from the
  document before the renumbering in these two numberings only.
\<close>

theorem clean_rounds_contiguous:
  assumes "json p = Some j" and "gameRounds j = Some rs0"
    and "clean_rounds ord opts p = Inr p'"
  shows "\<exists>p8 j8 rs8 rs.
           clean_stages ord opts p = Inr p8 \<and> json p8 = Some j8 \<and> gameRounds j8 = Some rs8
           \<and> p' = set_rounds p8 j8 rs
           \<and> map roundNum rs = [1..int (length rs)]
           \<and> map globalFrameID (all_frames rs) = map int [0..<length (all_frames rs)]
           \<and> map erase_numbers rs = map erase_numbers rs8"
proof -
  from assms obtain p8 p9 p10 where
    st: "clean_stages ord opts p = Inr p8" and r1: "renumber_rounds p8 = Inr p9"
    and r2: "renumber_frames p9 = Inr p10"
    and ret: "(case opt_return_type opts of Return_other \<Rightarrow> Inl ValueError | _ \<Rightarrow> Inr p10) = Inr p'"
    by (auto simp: clean_rounds_def bind_err_Inr)
  from ret have p': "p' = p10" by (cases "opt_return_type opts") simp_all
  from assms have "has_rounds p" by (simp add: has_rounds_def)
  with st have "has_rounds p8" by (rule has_rounds_clean_stages)
  then obtain j8 rs8 where j8: "json p8 = Some j8" and rs8: "gameRounds j8 = Some rs8"
    by (auto simp: has_rounds_def split: option.splits)
  from renumber_both [OF j8 rs8] r1 r2 have "p10 = set_rounds p8 j8 (renumbered rs8)"
    by (simp add: bind_err_def)
  with p' st j8 rs8 renumbered_nums [of rs8] renumbered_ids [of rs8] renumbered_erase [of rs8]
  show ?thesis by blast
qed

section \<open>Properties of the removal of a player\<close>

lemma remove_scan_absent:
  "removed_steamID \<notin> sid_of ` set xs \<Longrightarrow> remove_scan sid_of removed_steamID i xs = xs"
proof (induction sid_of removed_steamID i xs rule: remove_scan.induct)
  case (1 sid_of removed_steamID i xs)
  show ?case
  proof (cases "i < length xs")
    case True
    with "1.prems" have "sid_of (xs ! i) \<noteq> removed_steamID" by auto
    with True "1.IH"(2) "1.prems" show ?thesis
      by (subst remove_scan.simps) simp
  next
    case False
    then show ?thesis by (subst remove_scan.simps) simp
  qed
qed

lemma filter_remove1_distinct:
  "distinct (map f xs) \<Longrightarrow> x \<in> set xs \<Longrightarrow> filter (\<lambda>y. f y \<noteq> f x) xs = remove1 x xs"
proof (induction xs)
  case Nil
  then show ?case by simp
next
  case (Cons a xs)
  show ?case
  proof (cases "a = x")
    case True
    with Cons.prems have "f x \<notin> f ` set xs" by simp
    then have "\<forall>y\<in>set xs. f y \<noteq> f x" by (metis image_eqI)
    then have "filter (\<lambda>y. f y \<noteq> f x) xs = xs" by (simp add: filter_id_conv)
    with True show ?thesis by simp
  next
    case False
    with Cons.prems have "x \<in> set xs" and "f a \<noteq> f x" by auto
    with Cons False show ?thesis by simp
  qed
qed

lemma remove_scan_distinct:
  "distinct (map sid_of xs) \<Longrightarrow> removed_steamID \<notin> sid_of ` set (take i xs) \<Longrightarrow>
     remove_scan sid_of removed_steamID i xs = filter (\<lambda>y. sid_of y \<noteq> removed_steamID) xs"
proof (induction sid_of removed_steamID i xs rule: remove_scan.induct)
  case (1 sid_of removed_steamID i xs)
  show ?case
  proof (cases "i < length xs")
    case False
    with "1.prems" have "\<forall>y\<in>set xs. sid_of y \<noteq> removed_steamID"
      by (metis image_eqI take_all not_le_imp_less leI)
    then have "filter (\<lambda>y. sid_of y \<noteq> removed_steamID) xs = xs"
      by (simp add: filter_id_conv)
    with False show ?thesis by (subst remove_scan.simps) simp
  next
    case True
    show ?thesis
    proof (cases "sid_of (xs ! i) = removed_steamID")
      case hit: True
      from True have mem: "xs ! i \<in> set xs" by simp
      from filter_remove1_distinct [OF "1.prems"(1) mem] hit
      have eq: "filter (\<lambda>y. sid_of y \<noteq> removed_steamID) xs = remove1 (xs ! i) xs" by simp
      then have "set (remove1 (xs ! i) xs) = {y \<in> set xs. sid_of y \<noteq> removed_steamID}"
        by (metis set_filter)
      then have "removed_steamID \<notin> sid_of ` set (remove1 (xs ! i) xs)"
        by auto
      then have "remove_scan sid_of removed_steamID (Suc i) (remove1 (xs ! i) xs)
                   = remove1 (xs ! i) xs"
        by (rule remove_scan_absent)
      with True hit eq show ?thesis by (subst remove_scan.simps) simp
    next
      case miss: False
      from True have "take (Suc i) xs = take i xs @ [xs ! i]"
        by (simp add: take_Suc_conv_app_nth)
      with miss "1.prems" have "removed_steamID \<notin> sid_of ` set (take (Suc i) xs)" by auto
      with "1.IH"(2) [OF True miss "1.prems"(1)] True miss show ?thesis
        by (subst remove_scan.simps) simp
    qed
  qed
qed

lemma remove_scan_ids:
  assumes "distinct (map sid_of xs)"
  shows "map sid_of (remove_scan sid_of sid 0 xs) = removeAll sid (map sid_of xs)"
proof -
  have "remove_scan sid_of sid 0 xs = filter (\<lambda>y. sid_of y \<noteq> sid) xs"
    using assms by (rule remove_scan_distinct) simp
  then show ?thesis by (simp add: removeAll_filter_not_eq filter_map comp_def) metis
qed

lemma roster_ids_removed:
  assumes "remove_from_roster team sid = Inr team'" and "distinct (roster_id_list team)"
  shows "roster_id_list team' = removeAll sid (roster_id_list team)"
  using assms
  by (auto simp: remove_from_roster_def roster_id_list_def or_empty_def remove_scan_ids
        split: option.splits)

lemma roster_present_removed:
  assumes "remove_from_roster team sid = Inr team'"
  shows "(case team' of None \<Rightarrow> False | Some tm \<Rightarrow> rt_players tm \<noteq> None)"
  using assms by (auto simp: remove_from_roster_def split: option.splits)

lemma roster_removed_total:
  assumes "(case team of None \<Rightarrow> False | Some tm \<Rightarrow> rt_players tm \<noteq> None)"
  shows "\<exists>team'. remove_from_roster team sid = Inr team'"
  using assms by (auto simp: remove_from_roster_def split: option.splits)

lemma team_frame_ids_removed:
  assumes "distinct (map steamID (or_empty (players tf)))"
  shows "map steamID (or_empty (players (remove_from_team_frame tf sid)))
           = removeAll sid (map steamID (or_empty (players tf)))"
  using assms
  by (auto simp: remove_from_team_frame_def or_empty_def remove_scan_ids split: option.splits)

lemma frame_ids_removed:
  assumes "list_all distinct (frame_id_lists f)"
  shows "frame_id_lists (remove_from_frame sid f) = map (removeAll sid) (frame_id_lists f)"
  using assms by (simp add: frame_id_lists_def remove_from_frame_def team_frame_ids_removed)

lemma frames_ids_removed:
  assumes "list_all distinct (concat (map frame_id_lists fs))"
  shows "concat (map frame_id_lists (map (remove_from_frame sid) fs))
           = map (removeAll sid) (concat (map frame_id_lists fs))"
  using assms by (induction fs) (simp_all add: frame_ids_removed)

lemma remove_player_ids:
  assumes "remove_player_from_round r sid = Inr r'" and "unique_ids r"
  shows "id_lists r' = map (removeAll sid) (id_lists r)"
proof -
  from assms(1) obtain ts cts fs where
    ts: "remove_from_roster (tSide r) sid = Inr ts" and
    cts: "remove_from_roster (ctSide r) sid = Inr cts" and
    fs: "frames r = Some fs" and
    r': "r' = r\<lparr>tSide := ts, ctSide := cts, frames := Some (map (remove_from_frame sid) fs)\<rparr>"
    by (auto simp: remove_player_from_round_def bind_err_Inr split: option.splits)
  from assms(2) fs have d: "distinct (roster_id_list (tSide r))"
    "distinct (roster_id_list (ctSide r))" "list_all distinct (concat (map frame_id_lists fs))"
    by (simp_all add: unique_ids_def id_lists_def or_empty_def)
  show ?thesis
    using roster_ids_removed [OF ts d(1)] roster_ids_removed [OF cts d(2)]
      frames_ids_removed [OF d(3), of sid] fs
    by (simp add: r' id_lists_def or_empty_def)
qed

lemma remove_player_events:
  assumes "remove_player_from_round r sid = Inr r'"
  shows "events r' = events r"
  using assms
  by (auto simp: remove_player_from_round_def bind_err_Inr events_def split: option.splits)

lemma remove_player_present:
  assumes "remove_player_from_round r sid = Inr r'"
  shows "rosters_present r'"
proof -
  from assms obtain ts cts fs where
    ts: "remove_from_roster (tSide r) sid = Inr ts" and
    cts: "remove_from_roster (ctSide r) sid = Inr cts" and
    r': "r' = r\<lparr>tSide := ts, ctSide := cts, frames := Some (map (remove_from_frame sid) fs)\<rparr>"
    by (auto simp: remove_player_from_round_def bind_err_Inr split: option.splits)
  from roster_present_removed [OF ts] roster_present_removed [OF cts] show ?thesis
    by (simp add: r' rosters_present_def)
qed

lemma remove_player_total:
  assumes "rosters_present r"
  shows "\<exists>r'. remove_player_from_round r sid = Inr r'"
proof -
  from assms obtain ts cts fs where
    "remove_from_roster (tSide r) sid = Inr ts" "remove_from_roster (ctSide r) sid = Inr cts"
    "frames r = Some fs"
    using roster_removed_total [of "tSide r" sid] roster_removed_total [of "ctSide r" sid]
    by (auto simp: rosters_present_def)
  then show ?thesis by (simp add: remove_player_from_round_def bind_err_def)
qed

lemma unique_ids_removed:
  assumes "unique_ids r" and "id_lists r' = map (removeAll sid) (id_lists r)"
  shows "unique_ids r'"
  using assms by (simp add: unique_ids_def list_all_iff distinct_removeAll)

lemma filter_after_removeAll:
  "filter (\<lambda>s. s \<notin> set sids) (removeAll sid l) = filter (\<lambda>s. s \<notin> set (sid # sids)) l"
  by (induction l) auto

lemma remove_players_result:
  assumes "rosters_present r" and "unique_ids r"
  shows "\<exists>r'. remove_players r sids = Inr r' \<and> rosters_present r' \<and> unique_ids r'
           \<and> id_lists r' = map (filter (\<lambda>s. s \<notin> set sids)) (id_lists r)
           \<and> events r' = events r"
  using assms
proof (induction sids arbitrary: r)
  case Nil
  then show ?case by simp
next
  case (Cons sid sids)
  from remove_player_total [OF Cons.prems(1)] obtain r1 where
    r1: "remove_player_from_round r sid = Inr r1" by blast
  note ids = remove_player_ids [OF r1 Cons.prems(2)]
  from Cons.IH [OF remove_player_present [OF r1] unique_ids_removed [OF Cons.prems(2) ids]]
  obtain r' where r': "remove_players r1 sids = Inr r'" "rosters_present r'" "unique_ids r'"
    "id_lists r' = map (filter (\<lambda>s. s \<notin> set sids)) (id_lists r1)" "events r' = events r1"
    by blast
  have "map (filter (\<lambda>s. s \<notin> set sids)) (id_lists r1)
          = map (filter (\<lambda>s. s \<notin> set (sid # sids))) (id_lists r)"
    by (simp add: ids filter_after_removeAll del: set_simps)
  with r' r1 remove_player_events [OF r1] show ?case by (simp add: bind_err_def)
qed

text \<open>
  C3 (amended). On a round whose rosters and first-frame player lists are present and
  whose steamIDs are unique within each roster and each team list of each frame,
  \<^verbatim>\<open>remove_coaches_in_origin\<close> returns; every first-frame player at the origin is gone
  from both rosters and from the player lists of every frame, every other entry stays,
  and the five event lists are unchanged.
\<close>

theorem remove_coaches_in_origin_rosters_and_frames:
  assumes "rosters_present r" and "first_frame_present r" and "unique_ids r"
  shows "\<exists>r'. remove_coaches_in_origin r = Inr r'
           \<and> id_lists r' = map (filter (\<lambda>s. s \<notin> set (coaches r))) (id_lists r)
           \<and> (\<forall>c\<in>set (coaches r). c \<notin> round_ids r')
           \<and> events r' = events r"
proof -
  from assms(2) obtain f fs tps cps where
    fr: "frames r = Some (f # fs)" "players (f_t f) = Some tps" "players (f_ct f) = Some cps"
    by (auto simp: first_frame_present_def split: option.splits list.splits)
  then have run: "remove_coaches_in_origin r = remove_players r (coaches r)"
    by (simp add: remove_coaches_in_origin_def coaches_def player_list_def frame_team_def
          or_empty_def)
  from remove_players_result [OF assms(1,3), of "coaches r"] obtain r' where
    r': "remove_players r (coaches r) = Inr r'"
      "id_lists r' = map (filter (\<lambda>s. s \<notin> set (coaches r))) (id_lists r)"
      "events r' = events r"
    by blast
  from r'(2) have "\<forall>c\<in>set (coaches r). c \<notin> round_ids r'"
    by (auto simp: round_ids_def)
  with run r' show ?thesis by simp
qed

lemma example_coach_round_coaches: "coaches example_coach_round = [9]"
  by (simp add: coaches_def example_coach_round_def player_list_def frame_team_def
        example_frame_def example_team_def or_empty_def at_origin_def example_player_def)

theorem remove_coaches_in_origin_rosters_and_frames_witness:
  "rosters_present example_coach_round \<and> first_frame_present example_coach_round
   \<and> unique_ids example_coach_round
   \<and> (\<exists>r'. remove_coaches_in_origin example_coach_round = Inr r'
          \<and> 9 \<notin> round_ids r' \<and> events r' = events example_coach_round)"
proof -
  have a: "rosters_present example_coach_round"
    by (simp add: rosters_present_def example_coach_round_def example_roster_def)
  have b: "first_frame_present example_coach_round"
    by (simp add: first_frame_present_def example_coach_round_def example_frame_def
          example_team_def)
  have c: "unique_ids example_coach_round"
    by (simp add: unique_ids_def id_lists_def example_coach_round_def example_roster_def
          roster_id_list_def frame_id_lists_def example_frame_def example_team_def
          or_empty_def example_player_def)
  from remove_coaches_in_origin_rosters_and_frames [OF a b c] a b c show ?thesis
    by (auto simp: example_coach_round_coaches)
qed

text \<open>
  C3 as stated fails on the event lists: \<^verbatim>\<open>remove_player_from_round\<close> edits the rosters
  and the frames only, so the kill whose victim is the removed player 9 is still there.
\<close>

theorem remove_coaches_in_origin_keeps_events:
  "at_origin (example_player 9 ''T'' 0 True)
   \<and> remove_coaches_in_origin example_coach_round
       = Inr (example_coach_round
           \<lparr>tSide := example_roster [1],
            frames := Some [example_frame [example_player 1 ''T'' 5 True]
                              [example_player 2 ''CT'' 7 True]]\<rparr>)
   \<and> kills example_coach_round = Some [example_kill 2 9 ''AK-47'']
   \<and> victimSteamID (example_kill 2 9 ''AK-47'') = 9"
  by (simp add: remove_coaches_in_origin_def example_coach_round_def example_round_def
        example_frame_def example_team_def example_player_def example_roster_def
        example_kill_def at_origin_def remove_player_from_round_def bind_err_def
        remove_from_roster_def remove_from_frame_def remove_from_team_frame_def
        remove_scan.simps)

section \<open>Properties of the side switch\<close>

lemma find_SomeD: "find P xs = Some p \<Longrightarrow> p \<in> set xs \<and> P p"
  by (induction xs) (auto split: if_splits)

lemma find_None_filter: "(find P xs = None) = (filter P xs = [])"
  by (induction xs) auto

lemma find_snoc_only:
  "filter P xs = [] \<Longrightarrow> P p \<Longrightarrow> find P (xs @ [p]) = Some p"
  by (induction xs) (auto split: if_splits)

lemma remove1_snoc_only:
  "filter P xs = [] \<Longrightarrow> P p \<Longrightarrow> remove1 p (xs @ [p]) = xs"
proof -
  assume "filter P xs = []" and "P p"
  then have "p \<notin> set xs" by (auto simp: filter_empty_conv)
  then show ?thesis by (simp add: remove1_append)
qed

lemma single_match_first:
  assumes "length (filter P (xs @ ys)) \<le> 1" and "find P xs = Some p"
  shows "filter P (remove1 p xs) = [] \<and> filter P ys = []"
proof -
  from find_SomeD [OF assms(2)] have p: "p \<in> set xs" "P p" by simp_all
  then have "p \<in> set (filter P xs)" by simp
  then have pos: "length (filter P xs) \<ge> 1"
    by (metis One_nat_def Suc_leI length_pos_if_in_set)
  have "length (filter P ys) \<le> 0" and one: "length (filter P xs) = 1"
    using assms(1) pos unfolding filter_append length_append by arith+
  then have ys: "filter P ys = []" by simp
  have "length (filter P (remove1 p xs)) = length (remove1 p (filter P xs))"
    using p by (simp add: filter_remove1)
  also have "\<dots> = 0" using one \<open>p \<in> set (filter P xs)\<close> by (simp add: length_remove1)
  finally show ?thesis using ys by simp
qed

lemma single_match_second:
  assumes "length (filter P (xs @ ys)) \<le> 1" and "find P ys = Some p"
  shows "filter P (remove1 p ys) = [] \<and> filter P xs = []"
  using single_match_first [of P ys xs p] assms by (simp add: add.commute)

lemma move_between_twice:
  assumes one: "length (filter P (xs @ ys)) \<le> 1"
    and g: "\<And>p. P (g p) = P p" and h: "\<And>p. P (h p) = P p"
    and hg: "\<And>p. p \<in> set xs \<Longrightarrow> P p \<Longrightarrow> h (g p) = p"
    and gh: "\<And>p. p \<in> set ys \<Longrightarrow> P p \<Longrightarrow> g (h p) = p"
  shows "mset (fst (move_between P g h (move_between P g h (xs, ys)))) = mset xs
       \<and> mset (snd (move_between P g h (move_between P g h (xs, ys)))) = mset ys"
proof (cases "find P xs")
  case (Some p)
  from find_SomeD [OF Some] have p: "p \<in> set xs" "P p" by simp_all
  from single_match_first [OF one Some] have
    none: "filter P (remove1 p xs) = []" "filter P ys = []" by simp_all
  have first: "move_between P g h (xs, ys) = (remove1 p xs, ys @ [g p])"
    using Some by (simp add: move_between_def)
  have "find P (remove1 p xs) = None" using none by (simp add: find_None_filter)
  moreover have "find P (ys @ [g p]) = Some (g p)"
    using none p by (simp add: find_snoc_only g)
  moreover have "remove1 (g p) (ys @ [g p]) = ys"
    using none p by (simp add: remove1_snoc_only [of P] g)
  ultimately have "move_between P g h (remove1 p xs, ys @ [g p])
                     = (remove1 p xs @ [h (g p)], ys)"
    by (simp add: move_between_def)
  with first p hg [OF p] show ?thesis by simp
next
  case None
  then have nx: "filter P xs = []" by (simp add: find_None_filter)
  show ?thesis
  proof (cases "find P ys")
    case None
    with \<open>find P xs = None\<close> show ?thesis by (simp add: move_between_def)
  next
    case (Some p)
    from find_SomeD [OF Some] have p: "p \<in> set ys" "P p" by simp_all
    from single_match_second [OF one Some] have none: "filter P (remove1 p ys) = []"
      by simp
    have first: "move_between P g h (xs, ys) = (xs @ [h p], remove1 p ys)"
      using Some \<open>find P xs = None\<close> by (simp add: move_between_def)
    have "find P (xs @ [h p]) = Some (h p)"
      using nx p by (simp add: find_snoc_only h)
    moreover have "remove1 (h p) (xs @ [h p]) = xs"
      using nx p by (simp add: remove1_snoc_only [of P] h)
    ultimately have "move_between P g h (xs @ [h p], remove1 p ys)
                       = (xs, remove1 p ys @ [g (h p)])"
      by (simp add: move_between_def)
    with first p gh [OF p] show ?thesis by simp
  qed
qed

lemma team_frame_same_players: "players tf = Some ps \<Longrightarrow> tf\<lparr>players := Some ps\<rparr> = tf"
  by (cases tf) simp

lemma roster_same_players: "rt_players tm = Some ps \<Longrightarrow> tm\<lparr>rt_players := Some ps\<rparr> = tm"
  by (cases tm) simp

lemma frame_same_teams: "f\<lparr>f_t := f_t f, f_ct := f_ct f\<rparr> = f"
  by (cases f) simp

lemma switch_frame_switched:
  assumes "both_present f"
  shows "switch_frame sid f = Inr (switched_frame sid f)"
proof -
  from assms obtain tps cps where
    p: "players (f_t f) = Some tps" "players (f_ct f) = Some cps"
    by (auto simp: both_present_def)
  show ?thesis
  proof (cases "find (\<lambda>pl. steamID pl = sid) tps")
    case (Some pl)
    with p show ?thesis
      by (simp add: switch_frame_def switched_frame_def move_between_def or_empty_def)
  next
    case None
    show ?thesis
    proof (cases "find (\<lambda>pl. steamID pl = sid) cps")
      case (Some pl)
      with None p show ?thesis
        by (simp add: switch_frame_def switch_frame_ct_def switched_frame_def
              move_between_def or_empty_def)
    next
      case None
      with \<open>find (\<lambda>pl. steamID pl = sid) tps = None\<close> p show ?thesis
        by (simp add: switch_frame_def switch_frame_ct_def switched_frame_def
              move_between_def or_empty_def team_frame_same_players frame_same_teams)
    qed
  qed
qed

lemma switched_frame_present: "both_present (switched_frame sid f)"
  by (simp add: both_present_def switched_frame_def Let_def)

lemma switch_frames_switched:
  "list_all both_present fs \<Longrightarrow> switch_frames sid fs = Inr (map (switched_frame sid) fs)"
  by (induction fs) (simp_all add: switch_frame_switched bind_err_def)

lemma flip_side_twice: "side_ok s \<Longrightarrow> flip_side (flip_side s) = s"
  by (auto simp: side_ok_def flip_side_def)

lemma switch_kill_twice:
  assumes "attackerSteamID k = sid \<longrightarrow> side_ok (attackerSide k)"
    and "victimSteamID k = sid \<longrightarrow> side_ok (victimSide k)"
  shows "switch_kill sid (switch_kill sid k) = k"
  using assms by (cases k) (simp add: switch_kill_def Let_def flip_side_twice)

lemma switch_damage_twice:
  assumes "dmg_attackerSteamID d = sid \<longrightarrow> side_ok (dmg_attackerSide d)"
    and "dmg_victimSteamID d = sid \<longrightarrow> side_ok (dmg_victimSide d)"
  shows "switch_damage sid (switch_damage sid d) = d"
  using assms by (cases d) (simp add: switch_damage_def Let_def flip_side_twice)

lemma switch_grenade_twice:
  assumes "throwerSteamID g = sid \<longrightarrow> side_ok (throwerSide g)"
  shows "switch_grenade sid (switch_grenade sid g) = g"
  using assms by (cases g) (simp add: switch_grenade_def flip_side_twice)

lemma switch_weapon_fire_twice:
  assumes "playerSteamID w = sid \<longrightarrow> side_ok (playerSide w)"
  shows "switch_weapon_fire sid (switch_weapon_fire sid w) = w"
  using assms by (cases w) (simp add: switch_weapon_fire_def flip_side_twice)

lemma switch_flash_twice:
  assumes "fl_attackerSteamID fl = sid \<longrightarrow> side_ok (fl_attackerSide fl)"
    and "fl_playerSteamID fl = sid \<longrightarrow> side_ok (fl_playerSide fl)"
  shows "switch_flash sid (switch_flash sid fl) = fl"
  using assms by (cases fl) (simp add: switch_flash_def Let_def flip_side_twice)

lemma map_twice_id:
  assumes "list_all Q xs" and "\<And>x. Q x \<Longrightarrow> f (f x) = x"
  shows "map f (map f xs) = xs"
  using assms by (induction xs) simp_all

lemma switched_frame_twice:
  assumes "both_present f" and "frame_once sid f"
  shows "frame_equiv (switched_frame sid (switched_frame sid f)) f"
proof -
  from assms(1) obtain tps cps where
    p: "players (f_t f) = Some tps" "players (f_ct f) = Some cps"
    by (auto simp: both_present_def)
  let ?P = "\<lambda>pl. steamID pl = sid"
  let ?g = "\<lambda>pl::player. pl\<lparr>side := ''CT''\<rparr>"
  let ?h = "\<lambda>pl::player. pl\<lparr>side := ''T''\<rparr>"
  from assms(2) p have one: "length (filter ?P (tps @ cps)) \<le> 1"
    and lt: "\<And>pl. pl \<in> set tps \<Longrightarrow> ?P pl \<Longrightarrow> side pl = ''T''"
    and lc: "\<And>pl. pl \<in> set cps \<Longrightarrow> ?P pl \<Longrightarrow> side pl = ''CT''"
    by (auto simp: frame_once_def or_empty_def list_all_iff)
  have hg: "\<And>pl. pl \<in> set tps \<Longrightarrow> ?P pl \<Longrightarrow> ?h (?g pl) = pl"
    using lt by (metis player.surjective player.update_convs(3))
  have gh: "\<And>pl. pl \<in> set cps \<Longrightarrow> ?P pl \<Longrightarrow> ?g (?h pl) = pl"
    using lc by (metis player.surjective player.update_convs(3))
  have tw: "mset (fst (move_between ?P ?g ?h (move_between ?P ?g ?h (tps, cps)))) = mset tps
          \<and> mset (snd (move_between ?P ?g ?h (move_between ?P ?g ?h (tps, cps)))) = mset cps"
    by (rule move_between_twice [OF one _ _ hg gh]) simp_all
  show ?thesis
    using tw p
    by (simp add: frame_equiv_def team_frame_equiv_def switched_frame_def Let_def or_empty_def)
qed

lemma round_same_rosters:
  "tSide r = Some ts \<Longrightarrow> ctSide r = Some cs \<Longrightarrow> r\<lparr>tSide := Some ts, ctSide := Some cs\<rparr> = r"
  by (cases r) simp

lemma switch_rosters_explicit:
  assumes "tSide r = Some ts" and "rt_players ts = Some tps"
    and "ctSide r = Some cs" and "rt_players cs = Some cps"
  shows "switch_rosters r sid =
           Inr (r\<lparr>tSide := Some (ts\<lparr>rt_players := Some
                      (fst (move_between (\<lambda>pl. rp_steamID pl = sid) id id (tps, cps)))\<rparr>),
                  ctSide := Some (cs\<lparr>rt_players := Some
                      (snd (move_between (\<lambda>pl. rp_steamID pl = sid) id id (tps, cps)))\<rparr>)\<rparr>)"
proof (cases "find (\<lambda>pl. rp_steamID pl = sid) tps")
  case (Some pl)
  with assms show ?thesis by (simp add: switch_rosters_def move_between_def)
next
  case None
  show ?thesis
  proof (cases "find (\<lambda>pl. rp_steamID pl = sid) cps")
    case (Some pl)
    with None assms show ?thesis by (simp add: switch_rosters_def move_between_def)
  next
    case None
    with \<open>find (\<lambda>pl. rp_steamID pl = sid) tps = None\<close> assms show ?thesis
      by (simp add: switch_rosters_def move_between_def roster_same_players
            round_same_rosters)
  qed
qed

lemma switch_player_side_explicit:
  assumes "tSide r = Some ts" and "rt_players ts = Some tps"
    and "ctSide r = Some cs" and "rt_players cs = Some cps"
    and "kills r = Some ks" and "damages r = Some ds" and "grenades r = Some gs"
    and "weaponFires r = Some ws" and "flashes r = Some fls"
    and "frames r = Some fs" and "list_all both_present fs"
  shows "switch_player_side r sid =
           Inr (r\<lparr>tSide := Some (ts\<lparr>rt_players := Some
                      (fst (move_between (\<lambda>pl. rp_steamID pl = sid) id id (tps, cps)))\<rparr>),
                  ctSide := Some (cs\<lparr>rt_players := Some
                      (snd (move_between (\<lambda>pl. rp_steamID pl = sid) id id (tps, cps)))\<rparr>),
                  kills := Some (map (switch_kill sid) ks),
                  damages := Some (map (switch_damage sid) ds),
                  grenades := Some (map (switch_grenade sid) gs),
                  weaponFires := Some (map (switch_weapon_fire sid) ws),
                  flashes := Some (map (switch_flash sid) fls),
                  frames := Some (map (switched_frame sid) fs)\<rparr>)"
  using assms(5-11)
  by (simp add: switch_player_side_def switch_rosters_explicit [OF assms(1-4)] bind_err_def
        switch_events_def switch_frames_switched)

lemma round_same_events:
  assumes "kills r = Some ks" and "damages r = Some ds" and "grenades r = Some gs"
    and "weaponFires r = Some ws" and "flashes r = Some fls"
  shows "r\<lparr>kills := Some ks, damages := Some ds, grenades := Some gs,
            weaponFires := Some ws, flashes := Some fls\<rparr> = r"
  using assms by (cases r) simp

text \<open>
  C4 (amended). On a round whose rosters, event lists and frame player lists are all
  present, in which the player is at most once in the two rosters and at most once in the
  two teams of each frame under the side label of the team list holding the entry, and
  in which every event side label of the player is T or CT, \<^verbatim>\<open>switch_player_side\<close> returns
  twice in a row and the second result equals the original round up to the order of the
  player lists.
\<close>

theorem switch_player_side_twice:
  assumes "switch_ready r sid"
  shows "\<exists>r1 r2. switch_player_side r sid = Inr r1 \<and> switch_player_side r1 sid = Inr r2
           \<and> round_equiv r2 r"
proof -
  from assms obtain ts tps cs cps ks ds gs ws fls fs where
    c: "tSide r = Some ts" "rt_players ts = Some tps" "ctSide r = Some cs"
       "rt_players cs = Some cps" "kills r = Some ks" "damages r = Some ds"
       "grenades r = Some gs" "weaponFires r = Some ws" "flashes r = Some fls"
       "frames r = Some fs" and fp: "list_all both_present fs"
    by (auto simp: switch_ready_def rosters_present_def events_present_def frames_present_def
          split: option.splits)
  let ?P = "\<lambda>pl. rp_steamID pl = sid"
  let ?m = "move_between ?P id id (tps, cps)"
  let ?m2 = "move_between ?P id id (fst ?m, snd ?m)"
  let ?r1 = "r\<lparr>tSide := Some (ts\<lparr>rt_players := Some (fst ?m)\<rparr>),
                ctSide := Some (cs\<lparr>rt_players := Some (snd ?m)\<rparr>),
                kills := Some (map (switch_kill sid) ks),
                damages := Some (map (switch_damage sid) ds),
                grenades := Some (map (switch_grenade sid) gs),
                weaponFires := Some (map (switch_weapon_fire sid) ws),
                flashes := Some (map (switch_flash sid) fls),
                frames := Some (map (switched_frame sid) fs)\<rparr>"
  have s1: "switch_player_side r sid = Inr ?r1"
    by (rule switch_player_side_explicit [OF c fp])
  have fp1: "list_all both_present (map (switched_frame sid) fs)"
    by (simp add: list_all_iff switched_frame_present)
  have s2: "switch_player_side ?r1 sid =
      Inr (?r1\<lparr>tSide := Some (ts\<lparr>rt_players := Some (fst ?m)\<rparr>\<lparr>rt_players := Some (fst ?m2)\<rparr>),
                ctSide := Some (cs\<lparr>rt_players := Some (snd ?m)\<rparr>\<lparr>rt_players := Some (snd ?m2)\<rparr>),
                kills := Some (map (switch_kill sid) (map (switch_kill sid) ks)),
                damages := Some (map (switch_damage sid) (map (switch_damage sid) ds)),
                grenades := Some (map (switch_grenade sid) (map (switch_grenade sid) gs)),
                weaponFires := Some (map (switch_weapon_fire sid) (map (switch_weapon_fire sid) ws)),
                flashes := Some (map (switch_flash sid) (map (switch_flash sid) fls)),
                frames := Some (map (switched_frame sid) (map (switched_frame sid) fs))\<rparr>)"
    by (rule switch_player_side_explicit [OF _ _ _ _ _ _ _ _ _ _ fp1]) simp_all
  from assms c have lab:
    "list_all (\<lambda>k. (attackerSteamID k = sid \<longrightarrow> side_ok (attackerSide k))
                  \<and> (victimSteamID k = sid \<longrightarrow> side_ok (victimSide k))) ks"
    "list_all (\<lambda>d. (dmg_attackerSteamID d = sid \<longrightarrow> side_ok (dmg_attackerSide d))
                  \<and> (dmg_victimSteamID d = sid \<longrightarrow> side_ok (dmg_victimSide d))) ds"
    "list_all (\<lambda>g. throwerSteamID g = sid \<longrightarrow> side_ok (throwerSide g)) gs"
    "list_all (\<lambda>w. playerSteamID w = sid \<longrightarrow> side_ok (playerSide w)) ws"
    "list_all (\<lambda>fl. (fl_attackerSteamID fl = sid \<longrightarrow> side_ok (fl_attackerSide fl))
                  \<and> (fl_playerSteamID fl = sid \<longrightarrow> side_ok (fl_playerSide fl))) fls"
    by (simp_all add: switch_ready_def events_labelled_def or_empty_def)
  have ev: "map (switch_kill sid) (map (switch_kill sid) ks) = ks"
    "map (switch_damage sid) (map (switch_damage sid) ds) = ds"
    "map (switch_grenade sid) (map (switch_grenade sid) gs) = gs"
    "map (switch_weapon_fire sid) (map (switch_weapon_fire sid) ws) = ws"
    "map (switch_flash sid) (map (switch_flash sid) fls) = fls"
    by (rule map_twice_id [OF lab(1)], simp add: switch_kill_twice,
        rule map_twice_id [OF lab(2)], simp add: switch_damage_twice,
        rule map_twice_id [OF lab(3)], simp add: switch_grenade_twice,
        rule map_twice_id [OF lab(4)], simp add: switch_weapon_fire_twice,
        rule map_twice_id [OF lab(5)], simp add: switch_flash_twice)
  from assms c have "length (filter ?P (tps @ cps)) \<le> 1"
    by (simp add: switch_ready_def roster_once_def roster_id_list_def or_empty_def
          comp_def)
  then have "mset (fst (move_between ?P id id ?m)) = mset tps
           \<and> mset (snd (move_between ?P id id ?m)) = mset cps"
    by (rule move_between_twice) simp_all
  then have ro: "mset (fst ?m2) = mset tps \<and> mset (snd ?m2) = mset cps"
    by simp
  from assms c have fo: "list_all (frame_once sid) fs"
    by (simp add: switch_ready_def or_empty_def)
  have fr: "list_all2 frame_equiv (map (switched_frame sid) (map (switched_frame sid) fs)) fs"
    using fp fo
    by (induction fs) (simp_all add: switched_frame_twice)
  have erased: "(?r1\<lparr>kills := Some ks, damages := Some ds, grenades := Some gs,
                     weaponFires := Some ws, flashes := Some fls\<rparr>)
                  \<lparr>tSide := None, ctSide := None, frames := None\<rparr>
                = r\<lparr>tSide := None, ctSide := None, frames := None\<rparr>"
    using round_same_events [OF c(5-9)] by (cases r) simp
  have "round_equiv
          (?r1\<lparr>tSide := Some (ts\<lparr>rt_players := Some (fst ?m)\<rparr>\<lparr>rt_players := Some (fst ?m2)\<rparr>),
                ctSide := Some (cs\<lparr>rt_players := Some (snd ?m)\<rparr>\<lparr>rt_players := Some (snd ?m2)\<rparr>),
                kills := Some ks, damages := Some ds, grenades := Some gs,
                weaponFires := Some ws, flashes := Some fls,
                frames := Some (map (switched_frame sid) (map (switched_frame sid) fs))\<rparr>) r"
    using erased ro fr c
    by (simp add: round_equiv_def roster_equiv_def frames_equiv_def)
  with s1 s2 ev show ?thesis by simp
qed

theorem switch_player_side_twice_witness:
  "switch_ready example_coach_round 1
   \<and> (\<exists>r1 r2. switch_player_side example_coach_round 1 = Inr r1
          \<and> switch_player_side r1 1 = Inr r2 \<and> round_equiv r2 example_coach_round)"
proof -
  have "switch_ready example_coach_round 1"
    by (simp add: switch_ready_def rosters_present_def events_present_def frames_present_def
          roster_once_def events_labelled_def frame_once_def both_present_def
          example_coach_round_def example_round_def example_roster_def example_frame_def
          example_team_def example_player_def example_kill_def roster_id_list_def
          or_empty_def side_ok_def)
  with switch_player_side_twice [of example_coach_round 1] show ?thesis by simp
qed

text \<open>
  C4 as stated fails. On a round whose kill list is null the switch raises. On a round
  where player 1 stands on the T list of the frame under the label CT, the first switch
  labels him CT on the CT list and the second labels him T on the T list: the frame label
  is set from the list, not flipped, and the original label is not restored.
\<close>

theorem switch_player_side_twice_differs:
  "switch_player_side (example_coach_round\<lparr>kills := None\<rparr>) 1 = Inl TypeError
   \<and> bind_err (switch_player_side example_mislabelled_round 1)
        (\<lambda>r1. switch_player_side r1 1)
       = Inr (example_mislabelled_round
           \<lparr>frames := Some [example_frame
              [example_player 9 ''T'' 0 True, example_player 1 ''T'' 5 True]
              [example_player 2 ''CT'' 7 True]]\<rparr>)
   \<and> \<not> round_equiv
         (example_mislabelled_round
           \<lparr>frames := Some [example_frame
              [example_player 9 ''T'' 0 True, example_player 1 ''T'' 5 True]
              [example_player 2 ''CT'' 7 True]]\<rparr>)
         example_mislabelled_round"
  by (simp add: switch_player_side_def switch_rosters_def switch_events_def
        switch_frame_def switch_frame_ct_def bind_err_def
        example_mislabelled_round_def example_coach_round_def example_round_def
        example_roster_def example_frame_def example_team_def example_player_def
        example_kill_def switch_kill_def
        round_equiv_def roster_equiv_def frames_equiv_def frame_equiv_def
        team_frame_equiv_def)

section \<open>Properties of remove_excess_players on one round\<close>















lemma example_played_round_normal: "normal (example_played_round a b c d)"
  by (simp add: normal_def rosters_present_def frames_present_def both_present_def
        example_played_round_def example_roster_def example_frame_def example_team_def)

lemma example_played_round_accepted: "accepted (example_played_round a b c d)"
  by (simp add: accepted_def player_list_def frame_team_def or_empty_def
        example_played_round_def example_frame_def example_team_def)

lemma example_played_round_sides:
  "mismatched (example_played_round a b c d) ''de_dust2'' = []"
  by (simp add: mismatched_def player_list_def frame_team_def or_empty_def
        get_player_side_def example_played_round_def example_frame_def example_team_def)


section \<open>The first frame under side correction and elimination\<close>












lemma excess_players_loop_outcomes:
  "list_all2 (\<lambda>r out. excess_players_round ord m r = Inr out) rs outs \<Longrightarrow>
     excess_players_loop ord m rs acc
       = Inr (acc @ concat (map (\<lambda>out. case out of None \<Rightarrow> [] | Some r \<Rightarrow> [r]) outs))"
proof (induction rs arbitrary: outs acc)
  case Nil
  then show ?case by simp
next
  case (Cons r rs)
  from Cons.prems obtain out rest where
    o: "outs = out # rest" "excess_players_round ord m r = Inr out"
       "list_all2 (\<lambda>r out. excess_players_round ord m r = Inr out) rs rest"
    by (auto simp: list_all2_Cons1)
  show ?case
    using o(2) Cons.IH [OF o(3)] by (cases out) (simp_all add: o(1) bind_err_def)
qed






section \<open>Rounds that need one elimination\<close>




















section \<open>remove_excess_players on a whole record\<close>






end
